theory Spec2Isabelle
  imports Main "HOL-Library.Sublist"
begin

section \<open>Strings of the source language\<close>

text \<open>
  The program is JavaScript. A JavaScript string is modelled as a \<^typ>\<open>string\<close>, one
  \<^typ>\<open>char\<close> per code unit, for texts whose code units are all below 256. The character
  classes are the ones of the ECMAScript regular expressions restricted to that range:
  \<open>\s\<close> is tab, line feed, vertical tab, form feed, carriage return, space and the
  no-break space; \<open>\w\<close> is \<open>[A-Za-z0-9_]\<close>; the dot excludes line feed and carriage return.
\<close>

definition ccode :: "char \<Rightarrow> int" where
  "ccode c = of_char c"

definition isSpace :: "char \<Rightarrow> bool" where
  "isSpace c = (ccode c \<in> {9, 10, 11, 12, 13, 32, 160})"

definition isDigit :: "char \<Rightarrow> bool" where
  "isDigit c = (48 \<le> ccode c \<and> ccode c \<le> 57)"

definition isUpper :: "char \<Rightarrow> bool" where
  "isUpper c = (65 \<le> ccode c \<and> ccode c \<le> 90)"

definition isLower :: "char \<Rightarrow> bool" where
  "isLower c = (97 \<le> ccode c \<and> ccode c \<le> 122)"

definition isAlpha :: "char \<Rightarrow> bool" where
  "isAlpha c = (isUpper c \<or> isLower c)"

definition isWord :: "char \<Rightarrow> bool" where
  "isWord c = (isAlpha c \<or> isDigit c \<or> c = CHR ''_'')"

definition isLineTerminator :: "char \<Rightarrow> bool" where
  "isLineTerminator c = (ccode c = 10 \<or> ccode c = 13)"

definition toLowerChar :: "char \<Rightarrow> char" where
  "toLowerChar c =
     (if isUpper c \<or> (192 \<le> ccode c \<and> ccode c \<le> 222 \<and> ccode c \<noteq> 215)
      then char_of (ccode c + 32) else c)"

definition toLowerCase :: "string \<Rightarrow> string" where
  "toLowerCase s = map toLowerChar s"

definition trim :: "string \<Rightarrow> string" where
  "trim s = rev (dropWhile isSpace (rev (dropWhile isSpace s)))"

definition startsWith :: "string \<Rightarrow> string \<Rightarrow> bool" where
  "startsWith s p = prefix p s"

definition endsWith :: "string \<Rightarrow> string \<Rightarrow> bool" where
  "endsWith s p = suffix p s"

definition str_includes :: "string \<Rightarrow> string \<Rightarrow> bool" where
  "str_includes s p = sublist p s"

text \<open>\<open>s.substring(n)\<close> for \<open>0 \<le> n\<close>.\<close>

definition substring :: "string \<Rightarrow> nat \<Rightarrow> string" where
  "substring s n = drop n s"

text \<open>\<open>s.substring(a, b)\<close> for \<open>0 \<le> a \<le> b\<close>.\<close>

definition substring2 :: "string \<Rightarrow> nat \<Rightarrow> nat \<Rightarrow> string" where
  "substring2 s a b = take (b - a) (drop a s)"

text \<open>\<open>s.indexOf(p)\<close>: the first position where \<open>p\<close> occurs, \<open>-1\<close> when there is none.\<close>

fun indexOf_from :: "nat \<Rightarrow> string \<Rightarrow> string \<Rightarrow> int" where
  "indexOf_from i [] p = (if p = [] then int i else -1)"
| "indexOf_from i (x # xs) p = (if prefix p (x # xs) then int i else indexOf_from (Suc i) xs p)"

definition indexOf :: "string \<Rightarrow> string \<Rightarrow> int" where
  "indexOf s p = indexOf_from 0 s p"

text \<open>\<open>s.lastIndexOf(p)\<close>: the last position where \<open>p\<close> occurs, \<open>-1\<close> when there is none.\<close>

fun lastIndexOf_from :: "nat \<Rightarrow> int \<Rightarrow> string \<Rightarrow> string \<Rightarrow> int" where
  "lastIndexOf_from i best [] p = (if p = [] then int i else best)"
| "lastIndexOf_from i best (x # xs) p =
     lastIndexOf_from (Suc i) (if prefix p (x # xs) then int i else best) xs p"

definition lastIndexOf :: "string \<Rightarrow> string \<Rightarrow> int" where
  "lastIndexOf s p = lastIndexOf_from 0 (-1) s p"

text \<open>\<open>s.split(c)\<close> for a separator of one character: always at least one piece.\<close>

fun split_char :: "char \<Rightarrow> string \<Rightarrow> string list" where
  "split_char sep [] = [[]]"
| "split_char sep (x # xs) =
     (if x = sep then [] # split_char sep xs
      else (case split_char sep xs of
              [] \<Rightarrow> [[x]]
            | p # ps \<Rightarrow> (x # p) # ps))"

text \<open>\<open>xs.join(sep)\<close>.\<close>

fun join :: "string \<Rightarrow> string list \<Rightarrow> string" where
  "join sep [] = []"
| "join sep [x] = x"
| "join sep (x # y # ys) = x @ sep @ join sep (y # ys)"

text \<open>
  A JavaScript \<open>Set\<close> of strings keeps insertion order: a list without duplicates, where
  \<open>add\<close> appends a new element and leaves the set alone when the element is present.
\<close>

definition set_add :: "string \<Rightarrow> string list \<Rightarrow> string list" where
  "set_add x xs = (if x \<in> set xs then xs else xs @ [x])"


section \<open>Regular expressions\<close>

text \<open>
  The source recognises its grammar with regular expressions. They are embedded as data
  and run by a backtracking matcher with the priorities of ECMAScript: alternatives are
  tried left to right, a greedy star prefers one more iteration, a lazy star prefers to
  stop, an iteration that consumes nothing is rejected. The matcher returns every way of
  matching at the cursor, best first; the cursor is the character before it (for \<open>\b\<close>
  and \<open>^\<close>) and the rest of the input. A capture group records the text it matched.
\<close>

datatype regex =
    Eps
  | Sym "char \<Rightarrow> bool"
  | Seq regex regex
  | Alt regex regex
  | Star regex
  | StarLazy regex
  | Grp nat regex
  | Bol
  | Eol
  | WordB
  | NotAhead regex

type_synonym caps = "(nat \<times> string) list"

definition atWordB :: "char option \<Rightarrow> string \<Rightarrow> bool" where
  "atWordB p r =
     ((case p of None \<Rightarrow> False | Some c \<Rightarrow> isWord c) \<noteq>
      (case r of [] \<Rightarrow> False | c # _ \<Rightarrow> isWord c))"

function rmatch :: "regex \<Rightarrow> char option \<Rightarrow> string \<Rightarrow> caps \<Rightarrow> (char option \<times> string \<times> caps) list" where
  "rmatch Eps p r c = [(p, r, c)]"
| "rmatch (Sym f) p r c =
     (case r of [] \<Rightarrow> [] | x # xs \<Rightarrow> if f x then [(Some x, xs, c)] else [])"
| "rmatch (Seq a b) p r c =
     concat (map (\<lambda>(p', r', c'). rmatch b p' r' c') (rmatch a p r c))"
| "rmatch (Alt a b) p r c = rmatch a p r c @ rmatch b p r c"
| "rmatch (Star a) p r c =
     concat (map (\<lambda>(p', r', c'). if length r' < length r then rmatch (Star a) p' r' c' else [])
                 (rmatch a p r c)) @ [(p, r, c)]"
| "rmatch (StarLazy a) p r c =
     (p, r, c) #
     concat (map (\<lambda>(p', r', c'). if length r' < length r then rmatch (StarLazy a) p' r' c' else [])
                 (rmatch a p r c))"
| "rmatch (Grp n a) p r c =
     map (\<lambda>(p', r', c'). (p', r', (n, take (length r - length r') r) # c')) (rmatch a p r c)"
| "rmatch Bol p r c = (if p = None then [(p, r, c)] else [])"
| "rmatch Eol p r c = (if r = [] then [(p, r, c)] else [])"
| "rmatch WordB p r c = (if atWordB p r then [(p, r, c)] else [])"
| "rmatch (NotAhead a) p r c = (if rmatch a p r c = [] then [(p, r, c)] else [])"
  by pat_completeness auto
termination
  by (relation "measures [\<lambda>(a, p, r, c). size a, \<lambda>(a, p, r, c). length r]") auto

declare rmatch.simps [simp del]

text \<open>Derived forms: \<open>a+\<close>, \<open>a?\<close>, a sequence, a literal, a literal under the flag \<open>i\<close>.\<close>

definition rplus :: "regex \<Rightarrow> regex" where
  "rplus a = Seq a (Star a)"

definition rplus_lazy :: "regex \<Rightarrow> regex" where
  "rplus_lazy a = Seq a (StarLazy a)"

definition ropt :: "regex \<Rightarrow> regex" where
  "ropt a = Alt a Eps"

definition rseq :: "regex list \<Rightarrow> regex" where
  "rseq rs = foldr Seq rs Eps"

definition ralt :: "regex list \<Rightarrow> regex" where
  "ralt rs = (case rs of [] \<Rightarrow> Eps | _ \<Rightarrow> foldr Alt (butlast rs) (last rs))"

definition rchar :: "char \<Rightarrow> regex" where
  "rchar c = Sym (\<lambda>x. x = c)"

definition rlit :: "string \<Rightarrow> regex" where
  "rlit s = rseq (map rchar s)"

definition rchar_ci :: "char \<Rightarrow> regex" where
  "rchar_ci c = Sym (\<lambda>x. toLowerChar x = toLowerChar c)"

definition rlit_ci :: "string \<Rightarrow> regex" where
  "rlit_ci s = rseq (map rchar_ci s)"

definition ws0 :: regex where
  "ws0 = Star (Sym isSpace)"

definition ws1 :: regex where
  "ws1 = rplus (Sym isSpace)"

text \<open>
  A match is its start position, the matched text and the captures. \<open>re_exec_from\<close>
  looks for the leftmost match from a cursor on: \<open>i\<close> is the position of the cursor.
\<close>

record rmatch_result =
  m_index :: nat
  m_text :: string
  m_caps :: caps

fun re_exec_from :: "regex \<Rightarrow> nat \<Rightarrow> char option \<Rightarrow> string \<Rightarrow> rmatch_result option" where
  "re_exec_from re i p r =
     (case rmatch re p r [] of
        (p', r', c') # _ \<Rightarrow>
          Some \<lparr>m_index = i, m_text = take (length r - length r') r, m_caps = c'\<rparr>
      | [] \<Rightarrow> (case r of
                 [] \<Rightarrow> None
               | x # xs \<Rightarrow> re_exec_from re (Suc i) (Some x) xs))"

declare re_exec_from.simps [simp del]

definition re_exec :: "regex \<Rightarrow> string \<Rightarrow> rmatch_result option" where
  "re_exec re s = re_exec_from re 0 None s"

definition re_test :: "regex \<Rightarrow> string \<Rightarrow> bool" where
  "re_test re s = (re_exec re s \<noteq> None)"

text \<open>The text of capture group \<open>n\<close>, \<open>None\<close> when the group took no part (undefined).\<close>

definition grp :: "rmatch_result \<Rightarrow> nat \<Rightarrow> string option" where
  "grp m n = map_of (m_caps m) n"

definition grp_str :: "rmatch_result \<Rightarrow> nat \<Rightarrow> string" where
  "grp_str m n = (case grp m n of None \<Rightarrow> [] | Some s \<Rightarrow> s)"

text \<open>
  Replacement templates: literal text, \<open>$n\<close> and \<open>$&\<close>. An undefined group is replaced
  by the empty string.
\<close>

datatype tpart = TLit string | TGrp nat | TWhole

definition expand :: "tpart list \<Rightarrow> rmatch_result \<Rightarrow> string" where
  "expand t m =
     concat (map (\<lambda>x. case x of TLit s \<Rightarrow> s | TGrp n \<Rightarrow> grp_str m n | TWhole \<Rightarrow> m_text m) t)"

text \<open>
  \<open>s.replace(re, t)\<close> with the flag \<open>g\<close>: every match from left to right, the next search
  starting where the last match ended, one character further after an empty match.
\<close>

function re_replace_all_from :: "regex \<Rightarrow> tpart list \<Rightarrow> char option \<Rightarrow> string \<Rightarrow> string" where
  "re_replace_all_from re t p r =
     (case rmatch re p r [] of
        (p', r', c') # _ \<Rightarrow>
          expand t \<lparr>m_index = 0, m_text = take (length r - length r') r, m_caps = c'\<rparr> @
          (if length r' < length r then re_replace_all_from re t p' r'
           else (case r of [] \<Rightarrow> [] | x # xs \<Rightarrow> x # re_replace_all_from re t (Some x) xs))
      | [] \<Rightarrow> (case r of [] \<Rightarrow> [] | x # xs \<Rightarrow> x # re_replace_all_from re t (Some x) xs))"
  by pat_completeness auto
termination
  by (relation "measure (\<lambda>(re, t, p, r). length r)") auto

declare re_replace_all_from.simps [simp del]

definition re_replace_all :: "regex \<Rightarrow> tpart list \<Rightarrow> string \<Rightarrow> string" where
  "re_replace_all re t s = re_replace_all_from re t None s"

text \<open>\<open>s.replace(re, t)\<close> without the flag \<open>g\<close>: the leftmost match only.\<close>

definition re_replace :: "regex \<Rightarrow> tpart list \<Rightarrow> string \<Rightarrow> string" where
  "re_replace re t s =
     (case re_exec re s of
        None \<Rightarrow> s
      | Some m \<Rightarrow> take (m_index m) s @ expand t m @ drop (m_index m + length (m_text m)) s)"

text \<open>\<open>s.match(re)\<close> with the flag \<open>g\<close>: the texts of all matches (the empty list for null).\<close>

function re_match_all_from :: "regex \<Rightarrow> char option \<Rightarrow> string \<Rightarrow> string list" where
  "re_match_all_from re p r =
     (case rmatch re p r [] of
        (p', r', c') # _ \<Rightarrow>
          take (length r - length r') r #
          (if length r' < length r then re_match_all_from re p' r'
           else (case r of [] \<Rightarrow> [] | x # xs \<Rightarrow> re_match_all_from re (Some x) xs))
      | [] \<Rightarrow> (case r of [] \<Rightarrow> [] | x # xs \<Rightarrow> re_match_all_from re (Some x) xs))"
  by pat_completeness auto
termination
  by (relation "measure (\<lambda>(re, p, r). length r)") auto

declare re_match_all_from.simps [simp del]

definition re_match_all :: "regex \<Rightarrow> string \<Rightarrow> string list" where
  "re_match_all re s = re_match_all_from re None s"

text \<open>
  \<open>s.split(/\s+/)\<close>: the pieces between the runs of white space (the separator never
  matches the empty string, and the source applies it to trimmed text only).
\<close>

function split_ws_from :: "string \<Rightarrow> string \<Rightarrow> string list" where
  "split_ws_from acc [] = [rev acc]"
| "split_ws_from acc (x # xs) =
     (if isSpace x then rev acc # split_ws_from [] (dropWhile isSpace xs)
      else split_ws_from (x # acc) xs)"
  by pat_completeness auto
termination
  by (relation "measure (\<lambda>(acc, r). length r)")
     (auto simp: less_Suc_eq_le length_dropWhile_le)

definition split_ws :: "string \<Rightarrow> string list" where
  "split_ws s = split_ws_from [] s"


section \<open>Numbers\<close>

text \<open>
  The numbers of JavaScript are IEEE 754 doubles. Every finite double is a finite decimal, so a
  number is modelled by its exact decimal expansion: \<open>Dec m k\<close> stands for \<open>m / 10 ^ k\<close>, with
  \<open>k = 0\<close> or \<open>m\<close> not divisible by ten, so that equal doubles are equal terms; \<open>Infinity\<close>
  and \<open>NaN\<close> are the two other values the source can meet (no text it reads has a sign).

  \<open>to_double n d\<close> is the double nearest to the fraction \<open>n / d\<close>, ties to the even
  significand: the fraction is scaled by a power of two into \<open>[2^52, 2^53)\<close> (or down to the
  exponent \<open>-1074\<close> of the subnormal doubles), rounded to an integer \<open>m\<close>, and \<open>m * 2^e\<close> is
  written as a decimal. A value of \<open>2^1024\<close> or more is \<open>Infinity\<close>.
\<close>

datatype number = NaN | Infinity | Dec int int

function mul_pow :: "int \<Rightarrow> int \<Rightarrow> int \<Rightarrow> int" where
  "mul_pow b m j = (if 0 < j then mul_pow b (b * m) (j - 1) else m)"
  by pat_completeness auto
termination
  by (relation "measure (\<lambda>(b, m, j). nat j)") auto

function scale_down :: "int \<Rightarrow> int \<Rightarrow> int \<Rightarrow> int \<times> int \<times> int" where
  "scale_down n d e =
     (if 0 < d \<and> 9007199254740992 * d \<le> n then scale_down n (2 * d) (e + 1) else (n, d, e))"
  by pat_completeness auto
termination
  by (relation "measure (\<lambda>(n, d, e). nat (n - d))") auto

function scale_up :: "int \<Rightarrow> int \<Rightarrow> int \<Rightarrow> int \<times> int \<times> int" where
  "scale_up n d e =
     (if n < 4503599627370496 * d \<and> - 1074 < e then scale_up (2 * n) d (e - 1) else (n, d, e))"
  by pat_completeness auto
termination
  by (relation "measure (\<lambda>(n, d, e). nat (e + 1074))") auto

function reduce2 :: "int \<Rightarrow> int \<Rightarrow> int \<times> int" where
  "reduce2 m e = (if e < 0 \<and> m mod 2 = 0 then reduce2 (m div 2) (e + 1) else (m, e))"
  by pat_completeness auto
termination
  by (relation "measure (\<lambda>(m, e). nat (- e))") auto

definition round_half_even :: "int \<Rightarrow> int \<Rightarrow> int" where
  "round_half_even n d =
     (let f = n div d; r = n mod d in
      if 2 * r < d then f else if d < 2 * r then f + 1 else if f mod 2 = 0 then f else f + 1)"

definition to_double :: "int \<Rightarrow> int \<Rightarrow> number" where
  "to_double n d =
     (if n \<le> 0 \<or> d \<le> 0 then Dec 0 0
      else
        (case scale_down n d 0 of (n1, d1, e1) \<Rightarrow>
         case scale_up n1 d1 e1 of (n2, d2, e2) \<Rightarrow>
           (let m = round_half_even n2 d2 in
            if 972 \<le> e2 \<or> (e2 = 971 \<and> m = 9007199254740992) then Infinity
            else if m = 0 then Dec 0 0
            else
              (case reduce2 m e2 of (m', e') \<Rightarrow>
                 if 0 \<le> e' then Dec (mul_pow 2 m' e') 0
                 else Dec (mul_pow 5 m' (- e')) (- e')))))"

text \<open>
  The source reads amounts with \<open>parseFloat\<close> and \<open>parseInt\<close> from texts made of digits and
  dots only (the separators \<open>,\<close> and \<open>_\<close> are removed before). \<open>parseFloat\<close> reads the longest
  prefix that is a decimal literal and yields the double nearest to its value.
\<close>

definition digit_val :: "char \<Rightarrow> int" where
  "digit_val c = ccode c - 48"

definition int_of_digits :: "string \<Rightarrow> int" where
  "int_of_digits s = foldl (\<lambda>n c. 10 * n + digit_val c) 0 s"

definition parseFloat :: "string \<Rightarrow> number" where
  "parseFloat s =
     (let ip = takeWhile isDigit s; r = dropWhile isDigit s in
      case r of
        [] \<Rightarrow> if ip = [] then NaN else to_double (int_of_digits ip) 1
      | x # r' \<Rightarrow>
          if x = CHR ''.'' then
            (let fp = takeWhile isDigit r' in
             if ip = [] \<and> fp = [] then NaN
             else to_double (int_of_digits (ip @ fp)) (mul_pow 10 1 (int (length fp))))
          else if ip = [] then NaN else to_double (int_of_digits ip) 1)"

text \<open>\<open>parseInt\<close> of a text matched by \<open>\d+\<close>.\<close>

definition parseInt :: "string \<Rightarrow> number" where
  "parseInt s = to_double (int_of_digits (takeWhile isDigit s)) 1"

text \<open>\<open>x >= n\<close> and \<open>x > n\<close> for an integer \<open>n\<close>; false for \<open>NaN\<close>.\<close>

fun num_ge :: "number \<Rightarrow> int \<Rightarrow> bool" where
  "num_ge NaN n = False"
| "num_ge Infinity n = True"
| "num_ge (Dec m k) n = (mul_pow 10 n k \<le> m)"

fun num_gt :: "number \<Rightarrow> int \<Rightarrow> bool" where
  "num_gt NaN n = False"
| "num_gt Infinity n = True"
| "num_gt (Dec m k) n = (mul_pow 10 n k < m)"


section \<open>The validator (validator.js)\<close>

datatype severity = SevError | SevWarning | SevInfo

record diagnostic =
  line :: int
  column :: int
  message :: string
  severity :: severity
  startOffset :: int
  endOffset :: int

datatype block = Scenario | Definition | Schedule

text \<open>\<open>getOffset(lines, lineIdx, column)\<close>: the lengths of the lines before, one more for
  each line break, plus the column.\<close>

definition getOffset :: "string list \<Rightarrow> nat \<Rightarrow> int \<Rightarrow> int" where
  "getOffset lines lineIdx col =
     sum_list (map (\<lambda>l. int (length l) + 1) (take lineIdx lines)) + col"

subsection \<open>The regular expressions of the validator\<close>

definition dot :: regex where
  "dot = Sym (\<lambda>c. \<not> isLineTerminator c)"

definition digit :: regex where
  "digit = Sym isDigit"

definition wordc :: regex where
  "wordc = Sym isWord"

text \<open>\<open>[\d,._]\<close>\<close>

definition amount_char :: regex where
  "amount_char = Sym (\<lambda>c. isDigit c \<or> c = CHR '','' \<or> c = CHR ''.'' \<or> c = CHR ''_'')"

text \<open>\<open>/^(When|Given|And|Or)\s+/\<close>\<close>

definition re_condition_keyword :: regex where
  "re_condition_keyword =
     rseq [Bol, Grp 1 (ralt [rlit ''When'', rlit ''Given'', rlit ''And'', rlit ''Or'']), ws1]"

text \<open>\<open>/^(Then|And)\s+/\<close>\<close>

definition re_outcome_keyword :: regex where
  "re_outcome_keyword = rseq [Bol, Grp 1 (ralt [rlit ''Then'', rlit ''And'']), ws1]"

text \<open>\<open>/^[A-Z]/\<close>\<close>

definition re_capital :: regex where
  "re_capital = rseq [Bol, Sym isUpper]"

text \<open>\<open>/^When\s+(.+?):\s*\$?([\d,._]+)(?:\s+per\s+(\w+))?$/\<close>\<close>

definition re_schedule_entry :: regex where
  "re_schedule_entry =
     rseq [Bol, rlit ''When'', ws1, Grp 1 (rplus_lazy dot), rchar CHR '':'', ws0,
           ropt (rchar CHR ''$''), Grp 2 (rplus amount_char),
           ropt (rseq [ws1, rlit ''per'', ws1, Grp 3 (rplus wordc)]), Eol]"

text \<open>\<open>/^\d+(?:[,._]\d+)*(?:\.\d+)?$/\<close>\<close>

definition re_amount_format :: regex where
  "re_amount_format =
     rseq [Bol, rplus digit,
           Star (rseq [Sym (\<lambda>c. c = CHR '','' \<or> c = CHR ''.'' \<or> c = CHR ''_''), rplus digit]),
           ropt (rseq [rchar CHR ''.'', rplus digit]), Eol]"

text \<open>\<open>new RegExp(`\\s*${op.replace(/[<>=]/g, '\\$&')}\\s*`)\<close>: the operator between optional
  white space.\<close>

definition re_code_op :: "string \<Rightarrow> regex" where
  "re_code_op op = rseq [ws0, rlit op, ws0]"

text \<open>\<open>/\bbetween\b/i\<close>\<close>

definition re_has_between :: regex where
  "re_has_between = rseq [WordB, rlit_ci ''between'', WordB]"

text \<open>\<open>/^[a-zA-Z_][a-zA-Z0-9_]*$/\<close>\<close>

definition re_identifier :: regex where
  "re_identifier =
     rseq [Bol, Sym (\<lambda>c. isAlpha c \<or> c = CHR ''_''), Star wordc, Eol]"

text \<open>\<open>/(\w+)\s+between\s+(.+?)\s+and\s+(.+)/i\<close>\<close>

definition re_between_syntax :: regex where
  "re_between_syntax =
     rseq [Grp 1 (rplus wordc), ws1, rlit_ci ''between'', ws1, Grp 2 (rplus_lazy dot), ws1,
           rlit_ci ''and'', ws1, Grp 3 (rplus dot)]"

text \<open>\<open>/["']/g\<close>\<close>

definition re_quote :: regex where
  "re_quote = Sym (\<lambda>c. c = CHR 0x22 \<or> c = CHR 0x27)"

text \<open>\<open>/\b(true|false|yes|no|eligible)\b/gi\<close>\<close>

definition re_bool_word :: regex where
  "re_bool_word =
     rseq [WordB, Grp 1 (ralt [rlit_ci ''true'', rlit_ci ''false'', rlit_ci ''yes'', rlit_ci ''no'',
                               rlit_ci ''eligible'']), WordB]"

text \<open>\<open>/\b(\d{1,3}(?:,\d{3})*(?:\.\d+)?)\b/g\<close>\<close>

definition re_money :: regex where
  "re_money =
     rseq [WordB,
           Grp 1 (rseq [Seq digit (ropt (Seq digit (ropt digit))),
                        Star (rseq [rchar CHR '','', digit, digit, digit]),
                        ropt (rseq [rchar CHR ''.'', rplus digit])]),
           WordB]"

text \<open>\<open>/\b([a-zA-Z_][a-zA-Z0-9_]*)\b/g\<close>\<close>

definition re_var_pattern :: regex where
  "re_var_pattern =
     rseq [WordB, Grp 1 (rseq [Sym (\<lambda>c. isAlpha c \<or> c = CHR ''_''), Star wordc]), WordB]"

text \<open>The eligibility patterns \<open>/\w+\s*=\s*true/i\<close>, \<open>/\w+\s+is\s+eligible/i\<close>,
  \<open>/\w+\s+is\s+yes/i\<close>, \<open>/\w+\s+is\s+true/i\<close>; the group is the one of \<open>parseOutcome\<close>.\<close>

definition eligibilityPatterns :: "regex list" where
  "eligibilityPatterns =
     [rseq [Grp 1 (rplus wordc), ws0, rchar CHR ''='', ws0, rlit_ci ''true''],
      rseq [Grp 1 (rplus wordc), ws1, rlit_ci ''is'', ws1, rlit_ci ''eligible''],
      rseq [Grp 1 (rplus wordc), ws1, rlit_ci ''is'', ws1, rlit_ci ''yes''],
      rseq [Grp 1 (rplus wordc), ws1, rlit_ci ''is'', ws1, rlit_ci ''true'']]"

text \<open>\<open>/payment\s+is\s+\$?[\d,._]+/i\<close>\<close>

definition re_payment_is :: regex where
  "re_payment_is =
     rseq [rlit_ci ''payment'', ws1, rlit_ci ''is'', ws1, ropt (rchar CHR ''$''), rplus amount_char]"

text \<open>\<open>/\$?([\d,._]+)/\<close>\<close>

definition re_amount :: regex where
  "re_amount = rseq [ropt (rchar CHR ''$''), Grp 1 (rplus amount_char)]"

text \<open>\<open>/base\s+rate\s+is\s+\$?[\d,._]+/i\<close>\<close>

definition re_base_rate :: regex where
  "re_base_rate =
     rseq [rlit_ci ''base'', ws1, rlit_ci ''rate'', ws1, rlit_ci ''is'', ws1,
           ropt (rchar CHR ''$''), rplus amount_char]"

text \<open>\<open>/rate\s+is\s+determined\s+by\s+(.+)/i\<close>\<close>

definition re_schedule_ref :: regex where
  "re_schedule_ref =
     rseq [rlit_ci ''rate'', ws1, rlit_ci ''is'', ws1, rlit_ci ''determined'', ws1, rlit_ci ''by'',
           ws1, Grp 1 (rplus dot)]"

text \<open>\<open>/(?:payment\s+)?reduces?\s+by\s+\d+\s+cents?\s+per\s+dollar/i\<close>\<close>

definition re_reduction_head :: regex where
  "re_reduction_head =
     rseq [ropt (rseq [rlit_ci ''payment'', ws1]), rlit_ci ''reduce'', ropt (rchar_ci CHR ''s''), ws1,
           rlit_ci ''by'', ws1, rplus digit, ws1, rlit_ci ''cent'', ropt (rchar_ci CHR ''s''), ws1,
           rlit_ci ''per'', ws1, rlit_ci ''dollar'']"

text \<open>\<open>/reduces?\s+by\s+(\d+)\s+cents?\s+per\s+dollar\s+over\s+\$?([\d,._]+)/i\<close>\<close>

definition re_reduction_full :: regex where
  "re_reduction_full =
     rseq [rlit_ci ''reduce'', ropt (rchar_ci CHR ''s''), ws1, rlit_ci ''by'', ws1,
           Grp 1 (rplus digit), ws1, rlit_ci ''cent'', ropt (rchar_ci CHR ''s''), ws1,
           rlit_ci ''per'', ws1, rlit_ci ''dollar'', ws1, rlit_ci ''over'', ws1,
           ropt (rchar CHR ''$''), Grp 2 (rplus amount_char)]"

text \<open>\<open>/(?:payment\s+)?(?:cuts?\s*out|ceases?)\s+at\s+\$?([\d,._]+)/i\<close>\<close>

definition re_cutout :: regex where
  "re_cutout =
     rseq [ropt (rseq [rlit_ci ''payment'', ws1]),
           Alt (rseq [rlit_ci ''cut'', ropt (rchar_ci CHR ''s''), ws0, rlit_ci ''out''])
               (rseq [rlit_ci ''cease'', ropt (rchar_ci CHR ''s'')]),
           ws1, rlit_ci ''at'', ws1, ropt (rchar CHR ''$''), Grp 1 (rplus amount_char)]"


subsection \<open>Conditions and outcomes\<close>

text \<open>
  \<open>validateCondition\<close> and \<open>validateOutcome\<close> push their findings on the shared array
  \<open>errors\<close>; the model returns the findings of one call, in the order they are pushed, and
  the caller appends them.
\<close>

definition naturalOperators :: "string list" where
  "naturalOperators =
     [''is less than'', ''is greater than'', ''is at least'', ''is at most'',
      ''is more than'', ''is no more than'', ''is no less than'',
      ''is equal to'', ''is not equal to'', ''is not'', ''is'']"

definition codeOperators :: "string list" where
  "codeOperators = [''=='', ''!='', ''<='', ''>='', ''<'', ''>'']"

definition boolWords :: "string list" where
  "boolWords = [''true'', ''false'', ''yes'', ''no'', ''eligible'']"

definition validateCondition ::
    "string \<Rightarrow> int \<Rightarrow> int \<Rightarrow> string list \<Rightarrow> nat \<Rightarrow> diagnostic list" where
  "validateCondition condition lineNum columnOffset lines lineIdx =
     (let hasNaturalOp = list_ex (\<lambda>op. str_includes (toLowerCase condition) op) naturalOperators;
          hasCodeOp = list_ex (\<lambda>op. re_test (re_code_op op) condition) codeOperators;
          hasBetween = re_test re_has_between condition;
          isStandaloneBoolean = re_test re_identifier (trim condition)
      in
      if \<not> hasNaturalOp \<and> \<not> hasCodeOp \<and> \<not> hasBetween \<and> \<not> isStandaloneBoolean \<and> condition \<noteq> []
      then
        [\<lparr>line = lineNum, column = columnOffset,
          message = ''Condition missing comparison (e.g., \"is less than\", \"<\", \"between\")'',
          severity = SevError,
          startOffset = getOffset lines lineIdx (columnOffset - 1),
          endOffset = getOffset lines lineIdx (columnOffset - 1 + int (length condition))\<rparr>]
      else
        (if hasBetween \<and> re_exec re_between_syntax condition = None then
           (let betweenPos = indexOf (toLowerCase condition) ''between'' in
            [\<lparr>line = lineNum, column = columnOffset + betweenPos,
              message = ''Invalid \"between\" syntax. Use: variable between X and Y'',
              severity = SevError,
              startOffset = getOffset lines lineIdx (columnOffset - 1 + betweenPos),
              endOffset = getOffset lines lineIdx (columnOffset - 1 + betweenPos + 7)\<rparr>])
         else []) @
        (if length (re_match_all re_quote condition) mod 2 \<noteq> 0 then
           [\<lparr>line = lineNum, column = columnOffset,
             message = ''Unmatched quotes in condition'',
             severity = SevError,
             startOffset = getOffset lines lineIdx (columnOffset - 1),
             endOffset = getOffset lines lineIdx (columnOffset - 1 + int (length condition))\<rparr>]
         else []) @
        concat (map (\<lambda>bool.
           if toLowerCase bool \<notin> set boolWords then
             (let boolPos = indexOf condition bool in
              [\<lparr>line = lineNum, column = columnOffset + boolPos,
                message = ''Invalid boolean value: '' @ bool,
                severity = SevWarning,
                startOffset = getOffset lines lineIdx (columnOffset - 1 + boolPos),
                endOffset = getOffset lines lineIdx (columnOffset - 1 + boolPos + int (length bool))\<rparr>])
           else []) (re_match_all re_bool_word condition)) @
        concat (map (\<lambda>amount.
           if num_ge (parseFloat (filter (\<lambda>c. c \<noteq> CHR '','') amount)) 1000 then
             (let amountPos = indexOf condition amount;
                  hasDollar = str_includes
                    (substring2 condition (nat (max 0 (amountPos - 2))) (nat amountPos)) ''$''
              in if \<not> hasDollar then
                   [\<lparr>line = lineNum, column = columnOffset + amountPos,
                     message = ''Consider using $ for monetary amounts: $'' @ amount,
                     severity = SevWarning,
                     startOffset = getOffset lines lineIdx (columnOffset - 1 + amountPos),
                     endOffset = getOffset lines lineIdx
                       (columnOffset - 1 + amountPos + int (length amount))\<rparr>]
                 else [])
           else []) (re_match_all re_money condition)))"

text \<open>The check of an amount shared by the payment, base rate and cutout branches: the
  first text matching \<open>/\$?([\d,._]+)/\<close> in the outcome must have the amount format.\<close>

definition amount_check ::
    "string \<Rightarrow> string \<Rightarrow> int \<Rightarrow> int \<Rightarrow> string list \<Rightarrow> nat \<Rightarrow> diagnostic list" where
  "amount_check msg outcome lineNum columnOffset lines lineIdx =
     (case re_exec re_amount outcome of
        None \<Rightarrow> []
      | Some amountMatch \<Rightarrow>
          (let amount = grp_str amountMatch 1 in
           if \<not> re_test re_amount_format amount then
             (let amountPos = indexOf outcome amount in
              [\<lparr>line = lineNum, column = columnOffset + amountPos,
                message = msg,
                severity = SevError,
                startOffset = getOffset lines lineIdx (columnOffset - 1 + amountPos),
                endOffset = getOffset lines lineIdx
                  (columnOffset - 1 + amountPos + int (length amount))\<rparr>])
           else []))"

definition validateOutcome ::
    "string \<Rightarrow> int \<Rightarrow> int \<Rightarrow> string list \<Rightarrow> nat \<Rightarrow> string list \<Rightarrow> diagnostic list" where
  "validateOutcome outcome lineNum columnOffset lines lineIdx schedules =
     (if list_ex (\<lambda>pattern. re_test pattern outcome) eligibilityPatterns then []
      else if re_test re_payment_is outcome then
        amount_check ''Invalid payment amount format'' outcome lineNum columnOffset lines lineIdx
      else if re_test re_base_rate outcome then
        amount_check ''Invalid base rate amount format'' outcome lineNum columnOffset lines lineIdx
      else
        (case re_exec re_schedule_ref outcome of
           Some scheduleMatch \<Rightarrow>
             (let scheduleName = trim (grp_str scheduleMatch 1) in
              if scheduleName \<notin> set schedules then
                (let schedulePos = indexOf outcome scheduleName in
                 [\<lparr>line = lineNum, column = columnOffset + schedulePos,
                   message = ''Schedule '' @ [CHR 0x27] @ scheduleName @ [CHR 0x27] @ '' not defined'',
                   severity = SevError,
                   startOffset = getOffset lines lineIdx (columnOffset - 1 + schedulePos),
                   endOffset = getOffset lines lineIdx
                     (columnOffset - 1 + schedulePos + int (length scheduleName))\<rparr>])
              else [])
         | None \<Rightarrow>
             if re_test re_reduction_head outcome then
               (case re_exec re_reduction_full outcome of
                  None \<Rightarrow> []
                | Some reductionMatch \<Rightarrow>
                    (let cents = grp_str reductionMatch 1;
                         threshold = grp_str reductionMatch 2
                     in
                     (if num_gt (parseInt cents) 100 then
                        [\<lparr>line = lineNum, column = columnOffset + indexOf outcome cents,
                          message = ''Reduction rate cannot exceed 100 cents per dollar'',
                          severity = SevWarning,
                          startOffset = getOffset lines lineIdx
                            (columnOffset - 1 + indexOf outcome cents),
                          endOffset = getOffset lines lineIdx
                            (columnOffset - 1 + indexOf outcome cents + int (length cents))\<rparr>]
                      else []) @
                     (if \<not> re_test re_amount_format threshold then
                        (let thresholdPos = lastIndexOf outcome threshold in
                         [\<lparr>line = lineNum, column = columnOffset + thresholdPos,
                           message = ''Invalid threshold amount format'',
                           severity = SevError,
                           startOffset = getOffset lines lineIdx (columnOffset - 1 + thresholdPos),
                           endOffset = getOffset lines lineIdx
                             (columnOffset - 1 + thresholdPos + int (length threshold))\<rparr>])
                      else [])))
             else if re_test re_cutout outcome then
               amount_check ''Invalid cutout amount format'' outcome lineNum columnOffset lines lineIdx
             else
               [\<lparr>line = lineNum, column = columnOffset,
                 message = ''Unrecognised outcome format. Expected: eligibility (is eligible), payment amount, schedule reference, or reduction rule'',
                 severity = SevWarning,
                 startOffset = getOffset lines lineIdx (columnOffset - 1),
                 endOffset = getOffset lines lineIdx (columnOffset - 1 + int (length outcome))\<rparr>]))"

text \<open>\<open>extractVariables\<close> of the validator: the words of the condition that are not keywords
  are added to the set \<open>variables\<close>.\<close>

definition excludeWords_validator :: "string list" where
  "excludeWords_validator =
     [''and'', ''or'', ''not'', ''between'', ''is'', ''true'', ''false'', ''yes'', ''no'', ''eligible'',
      ''less'', ''greater'', ''than'', ''at'', ''least'', ''most'', ''more'', ''equal'', ''to'']"

definition extractVariables_validator :: "string \<Rightarrow> string list \<Rightarrow> string list" where
  "extractVariables_validator condition variables =
     fold (\<lambda>varName vs.
             if toLowerCase varName \<notin> set excludeWords_validator then set_add varName vs else vs)
          (re_match_all re_var_pattern condition) variables"


subsection \<open>The pass over the lines\<close>

text \<open>
  The variables of \<open>validateCourgette\<close> that its second pass updates. \<open>errors\<close> is the array
  of findings; \<open>blockStartLine\<close> starts at \<open>-1\<close>.
\<close>

record vstate =
  currentBlock :: "block option"
  blockStartLine :: int
  hasConditions :: bool
  hasOutcomes :: bool
  expectingListItems :: bool
  indentLevel :: nat
  variables :: "string list"
  errors :: "diagnostic list"

definition init_vstate :: vstate where
  "init_vstate =
     \<lparr>currentBlock = None, blockStartLine = -1, hasConditions = False, hasOutcomes = False,
      expectingListItems = False, indentLevel = 0, variables = [], errors = []\<rparr>"

definition push :: "diagnostic list \<Rightarrow> vstate \<Rightarrow> vstate" where
  "push ds st = st\<lparr>errors := errors st @ ds\<rparr>"

text \<open>First pass: the names declared on \<open>Definition:\<close> and \<open>Schedule:\<close> lines.\<close>

definition collect_line :: "string \<Rightarrow> string list \<times> string list \<Rightarrow> string list \<times> string list" where
  "collect_line ln ds =
     (let trimmed = trim ln in
      if startsWith trimmed ''Definition:'' then
        (let name = trim (substring trimmed 11) in
         if name \<noteq> [] then (set_add name (fst ds), snd ds) else ds)
      else if startsWith trimmed ''Schedule:'' then
        (let name = trim (substring trimmed 9) in
         if name \<noteq> [] then (fst ds, set_add name (snd ds)) else ds)
      else ds)"

definition collect_names :: "string list \<Rightarrow> string list \<times> string list" where
  "collect_names lines = fold collect_line lines ([], [])"

text \<open>The finding of a scenario without outcome, anchored at the line that opened it.\<close>

definition missing_outcome :: "string list \<Rightarrow> int \<Rightarrow> diagnostic" where
  "missing_outcome lines startLine =
     \<lparr>line = startLine, column = 1,
      message = ''Scenario missing outcome statements (Then...)'',
      severity = SevError,
      startOffset = getOffset lines (nat (startLine - 1)) 0,
      endOffset = getOffset lines (nat (startLine - 1))
                    (int (length (lines ! nat (startLine - 1))))\<rparr>"

text \<open>The tab check, made on every line before anything else.\<close>

definition tab_check :: "string list \<Rightarrow> nat \<Rightarrow> string \<Rightarrow> diagnostic list" where
  "tab_check lines idx ln =
     (if str_includes ln [CHR 0x09] then
        [\<lparr>line = int idx + 1, column = indexOf ln [CHR 0x09] + 1,
          message = ''Use spaces instead of tabs for indentation'',
          severity = SevWarning,
          startOffset = getOffset lines idx (indexOf ln [CHR 0x09]),
          endOffset = getOffset lines idx (indexOf ln [CHR 0x09] + 1)\<rparr>]
      else [])"

text \<open>The three block headers.\<close>

definition scenario_header :: "string list \<Rightarrow> nat \<Rightarrow> string \<Rightarrow> string \<Rightarrow> vstate \<Rightarrow> vstate" where
  "scenario_header lines idx ln trimmed st =
     (let lineNum = int idx + 1;
          st1 = (if currentBlock st = Some Scenario \<and> \<not> hasOutcomes st
                 then push [missing_outcome lines (blockStartLine st)] st else st);
          st2 = st1\<lparr>currentBlock := Some Scenario, blockStartLine := lineNum,
                    hasConditions := False, hasOutcomes := False\<rparr>;
          name = trim (substring trimmed 9)
      in
      if name = [] then
        push [\<lparr>line = lineNum, column = 10,
               message = ''Scenario name is required'',
               severity = SevError,
               startOffset = getOffset lines idx 9,
               endOffset = getOffset lines idx (int (length ln))\<rparr>] st2
      else if \<not> re_test re_capital name then
        push [\<lparr>line = lineNum, column = 10,
               message = ''Scenario names should start with a capital letter'',
               severity = SevWarning,
               startOffset = getOffset lines idx 9,
               endOffset = getOffset lines idx (9 + int (length name))\<rparr>] st2
      else st2)"

definition definition_header :: "string list \<Rightarrow> nat \<Rightarrow> string \<Rightarrow> string \<Rightarrow> vstate \<Rightarrow> vstate" where
  "definition_header lines idx ln trimmed st =
     (let lineNum = int idx + 1;
          st1 = st\<lparr>currentBlock := Some Definition, blockStartLine := lineNum\<rparr>;
          name = trim (substring trimmed 11)
      in
      if name = [] then
        push [\<lparr>line = lineNum, column = 12,
               message = ''Definition term is required'',
               severity = SevError,
               startOffset = getOffset lines idx 11,
               endOffset = getOffset lines idx (int (length ln))\<rparr>] st1
      else st1)"

definition schedule_header :: "string list \<Rightarrow> nat \<Rightarrow> string \<Rightarrow> string \<Rightarrow> vstate \<Rightarrow> vstate" where
  "schedule_header lines idx ln trimmed st =
     (let lineNum = int idx + 1;
          st1 = st\<lparr>currentBlock := Some Schedule, blockStartLine := lineNum\<rparr>;
          name = trim (substring trimmed 9)
      in
      if name = [] then
        push [\<lparr>line = lineNum, column = 10,
               message = ''Schedule name is required'',
               severity = SevError,
               startOffset = getOffset lines idx 9,
               endOffset = getOffset lines idx (int (length ln))\<rparr>] st1
      else st1)"

text \<open>
  Inside a scenario a line is dispatched by the chain of tests of the source, in this
  order: a condition keyword, a list item, an outcome keyword, a comment, anything else.
\<close>

datatype scenario_line_kind = ConditionLine | ListItemLine | OutcomeLine | CommentLine | InvalidLine

definition scenario_line_kind :: "string \<Rightarrow> scenario_line_kind" where
  "scenario_line_kind trimmed =
     (if re_test re_condition_keyword trimmed then ConditionLine
      else if startsWith trimmed ''- '' then ListItemLine
      else if re_test re_outcome_keyword trimmed then OutcomeLine
      else if \<not> startsWith trimmed ''#'' then InvalidLine
      else CommentLine)"

definition condition_line :: "string list \<Rightarrow> nat \<Rightarrow> string \<Rightarrow> string \<Rightarrow> vstate \<Rightarrow> vstate" where
  "condition_line lines idx ln trimmed st =
     (let lineNum = int idx + 1;
          leadingSpaces = length (takeWhile isSpace ln);
          keyword = hd (split_ws trimmed);
          condition = join '' '' (tl (split_ws trimmed));
          st1 = (if endsWith condition ''these are true:'' \<or> endsWith condition ''the following:''
                 then st\<lparr>expectingListItems := True, indentLevel := leadingSpaces\<rparr>
                 else (push (validateCondition condition lineNum (int (length keyword) + 1) lines idx) st)
                        \<lparr>hasConditions := True,
                         variables := extractVariables_validator condition (variables st)\<rparr>)
      in
      if keyword = ''Or'' \<and> \<not> hasConditions st1 then
        push [\<lparr>line = lineNum, column = 1,
               message = ''Or cannot be used before any conditions'',
               severity = SevError,
               startOffset = getOffset lines idx 0,
               endOffset = getOffset lines idx (int (length keyword))\<rparr>] st1
      else st1)"

definition list_item_line :: "string list \<Rightarrow> nat \<Rightarrow> string \<Rightarrow> string \<Rightarrow> vstate \<Rightarrow> vstate" where
  "list_item_line lines idx ln trimmed st =
     (let lineNum = int idx + 1;
          leadingSpaces = length (takeWhile isSpace ln);
          st1 = (if \<not> expectingListItems st then
                   push [\<lparr>line = lineNum, column = int leadingSpaces + 1,
                          message = ''List items must follow a group declaration (e.g., \"any of these are true:\")'',
                          severity = SevError,
                          startOffset = getOffset lines idx (int leadingSpaces),
                          endOffset = getOffset lines idx (int leadingSpaces + 2)\<rparr>] st
                 else st);
          condition = trim (substring trimmed 2)
      in (push (validateCondition condition lineNum (int leadingSpaces + 3) lines idx) st1)
           \<lparr>variables := extractVariables_validator condition (variables st1)\<rparr>)"

definition outcome_line ::
    "string list \<Rightarrow> string list \<Rightarrow> nat \<Rightarrow> string \<Rightarrow> string \<Rightarrow> vstate \<Rightarrow> vstate" where
  "outcome_line lines schedules idx ln trimmed st =
     (let lineNum = int idx + 1;
          st1 = (if \<not> hasConditions st then
                   push [\<lparr>line = lineNum, column = 1,
                          message = ''Outcomes (Then) must follow conditions (When/Given)'',
                          severity = SevError,
                          startOffset = getOffset lines idx 0,
                          endOffset = getOffset lines idx 4\<rparr>] st
                 else st);
          st2 = st1\<lparr>hasOutcomes := True, expectingListItems := False\<rparr>;
          outcome = re_replace re_outcome_keyword [] trimmed
      in push (validateOutcome outcome lineNum (indexOf trimmed outcome + 1) lines idx schedules) st2)"

definition invalid_line :: "string list \<Rightarrow> nat \<Rightarrow> string \<Rightarrow> vstate \<Rightarrow> vstate" where
  "invalid_line lines idx trimmed st =
     push [\<lparr>line = int idx + 1, column = 1,
            message = ''Expected When, Given, And, Or, Then, or list item (-)'',
            severity = SevError,
            startOffset = getOffset lines idx 0,
            endOffset = getOffset lines idx (int (length trimmed))\<rparr>] st"

definition scenario_line ::
    "string list \<Rightarrow> string list \<Rightarrow> nat \<Rightarrow> string \<Rightarrow> string \<Rightarrow> vstate \<Rightarrow> vstate" where
  "scenario_line lines schedules idx ln trimmed st =
     (case scenario_line_kind trimmed of
        ConditionLine \<Rightarrow> condition_line lines idx ln trimmed st
      | ListItemLine \<Rightarrow> list_item_line lines idx ln trimmed st
      | OutcomeLine \<Rightarrow> outcome_line lines schedules idx ln trimmed st
      | InvalidLine \<Rightarrow> invalid_line lines idx trimmed st
      | CommentLine \<Rightarrow> st)"

definition periodWords :: "string list" where
  "periodWords = [''fortnight'', ''week'', ''month'', ''year'']"

definition schedule_line :: "string list \<Rightarrow> nat \<Rightarrow> string \<Rightarrow> vstate \<Rightarrow> vstate" where
  "schedule_line lines idx trimmed st =
     (let lineNum = int idx + 1 in
      if startsWith trimmed ''When '' then
        (case re_exec re_schedule_entry trimmed of
           None \<Rightarrow>
             push [\<lparr>line = lineNum, column = 1,
                    message = ''Invalid schedule entry format. Expected: \"When [condition]: $[amount] per [period]\"'',
                    severity = SevError,
                    startOffset = getOffset lines idx 0,
                    endOffset = getOffset lines idx (int (length trimmed))\<rparr>] st
         | Some m \<Rightarrow>
             (let amount = grp_str m 2;
                  st1 = (if \<not> re_test re_amount_format amount then
                           (let amountStart = indexOf trimmed amount in
                            push [\<lparr>line = lineNum, column = amountStart + 1,
                                   message = ''Invalid amount format'',
                                   severity = SevError,
                                   startOffset = getOffset lines idx amountStart,
                                   endOffset = getOffset lines idx
                                     (amountStart + int (length amount))\<rparr>] st)
                         else st)
              in case grp m 3 of
                   None \<Rightarrow> st1
                 | Some period \<Rightarrow>
                     if period \<noteq> [] \<and> toLowerCase period \<notin> set periodWords then
                       push [\<lparr>line = lineNum, column = lastIndexOf trimmed period + 1,
                              message = ''Unknown period '' @ [CHR 0x27] @ period @ [CHR 0x27] @
                                        ''. Use: fortnight, week, month, or year'',
                              severity = SevWarning,
                              startOffset = getOffset lines idx (lastIndexOf trimmed period),
                              endOffset = getOffset lines idx
                                (lastIndexOf trimmed period + int (length period))\<rparr>] st1
                     else st1))
      else if \<not> startsWith trimmed ''Note:'' \<and> \<not> startsWith trimmed ''#'' then
        push [\<lparr>line = lineNum, column = 1,
               message = ''Expected schedule entry starting with \"When\" or \"Note:\"'',
               severity = SevError,
               startOffset = getOffset lines idx 0,
               endOffset = getOffset lines idx (int (length trimmed))\<rparr>] st
      else st)"

text \<open>The body of the second pass for the line \<open>ln\<close> at index \<open>idx\<close>.\<close>

definition validate_line :: "string list \<Rightarrow> string list \<Rightarrow> nat \<Rightarrow> string \<Rightarrow> vstate \<Rightarrow> vstate" where
  "validate_line lines schedules idx ln st =
     (let trimmed = trim ln;
          st1 = push (tab_check lines idx ln) st
      in
      if trimmed = [] then st1\<lparr>expectingListItems := False\<rparr>
      else if startsWith trimmed ''Scenario:'' then scenario_header lines idx ln trimmed st1
      else if startsWith trimmed ''Definition:'' then definition_header lines idx ln trimmed st1
      else if startsWith trimmed ''Schedule:'' then schedule_header lines idx ln trimmed st1
      else if currentBlock st1 = Some Scenario then scenario_line lines schedules idx ln trimmed st1
      else if currentBlock st1 = Some Schedule then schedule_line lines idx trimmed st1
      else st1)"

text \<open>\<open>lines.forEach((line, idx) => ...)\<close> from the index \<open>idx\<close> on.\<close>

fun validate_lines :: "string list \<Rightarrow> string list \<Rightarrow> nat \<Rightarrow> string list \<Rightarrow> vstate \<Rightarrow> vstate" where
  "validate_lines lines schedules idx [] st = st"
| "validate_lines lines schedules idx (ln # rest) st =
     validate_lines lines schedules (Suc idx) rest (validate_line lines schedules idx ln st)"

definition final_check :: "string list \<Rightarrow> vstate \<Rightarrow> diagnostic list" where
  "final_check lines st =
     (if currentBlock st = Some Scenario \<and> \<not> hasOutcomes st
      then errors st @ [missing_outcome lines (blockStartLine st)]
      else errors st)"

definition validateCourgette :: "string \<Rightarrow> diagnostic list" where
  "validateCourgette text =
     (let lines = split_char (CHR 0x0A) text;
          schedules = snd (collect_names lines)
      in final_check lines (validate_lines lines schedules 0 lines init_vstate))"


section \<open>Variable inference (compiler.js)\<close>

text \<open>
  The file \<open>compiler.js\<close> holds two variants of the compiler, one after the other. The
  functions of the first carry the suffix \<open>_v1\<close>, those of the second \<open>_v2\<close>; a function
  whose text is the same in both is defined once.

  \<open>guessVariableType\<close> returns an object with the fields \<open>type\<close> and \<open>period\<close>, both
  strings. The two variants differ in the period of rules 2 and 6.
\<close>

record var_info =
  vtype :: string
  period :: string

definition guessVariableType_v1 :: "string \<Rightarrow> var_info" where
  "guessVariableType_v1 variable =
     (let varLower = toLowerCase variable in
      if str_includes varLower ''age'' then \<lparr>vtype = ''int'', period = ''DAY''\<rparr>
      else if startsWith varLower ''is_'' \<or> startsWith varLower ''has_'' \<or>
              str_includes varLower ''eligible'' \<or> varLower = ''studying''
        then \<lparr>vtype = ''bool'', period = ''DAY''\<rparr>
      else if str_includes varLower ''resident'' \<or> str_includes varLower ''citizen''
        then \<lparr>vtype = ''bool'', period = ''ETERNITY''\<rparr>
      else if str_includes varLower ''years'' \<or> str_includes varLower ''_years''
        then \<lparr>vtype = ''int'', period = ''YEAR''\<rparr>
      else if str_includes varLower ''status'' \<or> str_includes varLower ''type'' \<or>
              str_includes varLower ''category''
        then \<lparr>vtype = ''str'', period = ''MONTH''\<rparr>
      else if str_includes varLower ''income'' \<or> str_includes varLower ''payment'' \<or>
              str_includes varLower ''amount'' \<or> str_includes varLower ''rate'' \<or>
              str_includes varLower ''asset'' \<or> str_includes varLower ''value''
        then \<lparr>vtype = ''float'', period = ''DAY''\<rparr>
      else \<lparr>vtype = ''float'', period = ''MONTH''\<rparr>)"

definition guessVariableType_v2 :: "string \<Rightarrow> var_info" where
  "guessVariableType_v2 variable =
     (let varLower = toLowerCase variable in
      if str_includes varLower ''age'' then \<lparr>vtype = ''int'', period = ''DAY''\<rparr>
      else if startsWith varLower ''is_'' \<or> startsWith varLower ''has_'' \<or>
              str_includes varLower ''eligible'' \<or> varLower = ''studying''
        then \<lparr>vtype = ''bool'', period = ''MONTH''\<rparr>
      else if str_includes varLower ''resident'' \<or> str_includes varLower ''citizen''
        then \<lparr>vtype = ''bool'', period = ''ETERNITY''\<rparr>
      else if str_includes varLower ''years'' \<or> str_includes varLower ''_years''
        then \<lparr>vtype = ''int'', period = ''YEAR''\<rparr>
      else if str_includes varLower ''status'' \<or> str_includes varLower ''type'' \<or>
              str_includes varLower ''category''
        then \<lparr>vtype = ''str'', period = ''MONTH''\<rparr>
      else if str_includes varLower ''income'' \<or> str_includes varLower ''payment'' \<or>
              str_includes varLower ''amount'' \<or> str_includes varLower ''rate'' \<or>
              str_includes varLower ''asset'' \<or> str_includes varLower ''value''
        then \<lparr>vtype = ''float'', period = ''MONTH''\<rparr>
      else \<lparr>vtype = ''float'', period = ''MONTH''\<rparr>)"


section \<open>The compiler (compiler.js)\<close>

subsection \<open>Numbers as text\<close>

text \<open>
  A number inside a template literal is written by \<open>Number::toString\<close>: the shortest digits
  \<open>s\<close> that read back as the same double (of two such texts of the same length the one nearer
  to the double, the even one at a tie) and the position \<open>n\<close> of the decimal point, plain
  notation for \<open>-6 < n \<le> 21\<close> and exponent notation otherwise.
\<close>

function digits_of :: "int \<Rightarrow> string" where
  "digits_of n = (if n < 10 then [char_of (48 + n)] else digits_of (n div 10) @ [char_of (48 + n mod 10)])"
  by pat_completeness auto
termination
  by (relation "measure nat") auto

text \<open>The double of \<open>s * 10 ^ p\<close>.\<close>

definition decimal_value :: "int \<Rightarrow> int \<Rightarrow> number" where
  "decimal_value s p =
     (if 0 \<le> p then to_double (mul_pow 10 s p) 1 else to_double s (mul_pow 10 1 (- p)))"

text \<open>
  The digits of \<open>Dec m k\<close>, whose decimal point is at position \<open>n\<close>, in a text of \<open>l\<close> digits
  if there is one: the two neighbours of the double among the decimals of \<open>l\<close> digits are
  tried.
\<close>

definition try_digits :: "int \<Rightarrow> int \<Rightarrow> int \<Rightarrow> int \<Rightarrow> (int \<times> int) option" where
  "try_digits m k n l =
     (let j = n + k - l in
      if j \<le> 0 then Some (m, n)
      else
        (let p = mul_pow 10 1 j; lo = m div p; r = m mod p; hi = lo + 1 in
         if r = 0 then Some (lo, n)
         else
           (let okl = (decimal_value lo (n - l) = Dec m k);
                okh = (decimal_value hi (n - l) = Dec m k);
                up = (if okl \<and> okh then p < 2 * r \<or> (p = 2 * r \<and> lo mod 2 \<noteq> 0) else okh)
            in
            if okl \<or> okh then
              Some (if up then (if hi = mul_pow 10 1 l then (1, n + 1) else (hi, n)) else (lo, n))
            else None)))"

function find_digits :: "int \<Rightarrow> int \<Rightarrow> int \<Rightarrow> int \<Rightarrow> int \<times> int" where
  "find_digits m k n l =
     (if 21 < l then (m, n)
      else case try_digits m k n l of Some r \<Rightarrow> r | None \<Rightarrow> find_digits m k n (l + 1))"
  by pat_completeness auto
termination
  by (relation "measure (\<lambda>(m, k, n, l). nat (22 - l))") auto

definition num_to_string :: "number \<Rightarrow> string" where
  "num_to_string x =
     (case x of
        NaN \<Rightarrow> ''NaN''
      | Infinity \<Rightarrow> ''Infinity''
      | Dec m k \<Rightarrow>
          if m \<le> 0 then ''0''
          else
            (case find_digits m k (int (length (digits_of m)) - k) 1 of (d, n) \<Rightarrow>
             (let s = digits_of d; l = int (length s) in
              if l \<le> n \<and> n \<le> 21 then s @ replicate (nat (n - l)) CHR ''0''
              else if 0 < n \<and> n \<le> 21 then take (nat n) s @ ''.'' @ drop (nat n) s
              else if -6 < n \<and> n \<le> 0 then ''0.'' @ replicate (nat (- n)) CHR ''0'' @ s
              else
                (let e = n - 1;
                     es = (if e < 0 then ''-'' else ''+'') @ digits_of \<bar>e\<bar>
                 in if l = 1 then s @ ''e'' @ es
                    else [hd s] @ ''.'' @ tl s @ ''e'' @ es))))"

text \<open>\<open>cents / 100\<close>: the double nearest to the quotient.\<close>

definition cents_rate :: "number \<Rightarrow> number" where
  "cents_rate cents =
     (case cents of Dec m k \<Rightarrow> to_double m (mul_pow 10 1 (k + 2)) | _ \<Rightarrow> cents)"

subsection \<open>Replacement by a string pattern\<close>

text \<open>
  \<open>s.replace(pattern, replacement)\<close> with two strings replaces the first occurrence of
  \<open>pattern\<close>. In the replacement \<open>$$\<close> stands for a dollar sign, \<open>$&\<close> for the matched text,
  \<open>$`\<close> for the text before it and \<open>$'\<close> for the text after it; any other dollar sign is
  kept, there being no capture group.
\<close>

fun expand_dollar :: "string \<Rightarrow> string \<Rightarrow> string \<Rightarrow> string \<Rightarrow> string" where
  "expand_dollar [] m b a = []"
| "expand_dollar [c] m b a = [c]"
| "expand_dollar (c # d # cs) m b a =
     (if c = CHR ''$'' then
        (if d = CHR ''$'' then CHR ''$'' # expand_dollar cs m b a
         else if d = CHR ''&'' then m @ expand_dollar cs m b a
         else if d = CHR 0x60 then b @ expand_dollar cs m b a
         else if d = CHR 0x27 then a @ expand_dollar cs m b a
         else c # expand_dollar (d # cs) m b a)
      else c # expand_dollar (d # cs) m b a)"

definition str_replace :: "string \<Rightarrow> string \<Rightarrow> string \<Rightarrow> string" where
  "str_replace s pattern replacement =
     (let i = indexOf s pattern in
      if i < 0 then s
      else (let b = take (nat i) s; a = drop (nat i + length pattern) s
            in b @ expand_dollar replacement pattern b a @ a))"

subsection \<open>The regular expressions of the compiler\<close>

text \<open>A phrase under the flag \<open>i\<close>: \<open>\b\<close>, the words separated by \<open>\s+\<close>, \<open>\b\<close>.\<close>

fun phrase_words :: "string list \<Rightarrow> regex list" where
  "phrase_words [] = []"
| "phrase_words [w] = [rlit_ci w]"
| "phrase_words (w # v # ws) = rlit_ci w # ws1 # phrase_words (v # ws)"

definition rphrase :: "string list \<Rightarrow> regex" where
  "rphrase ws = rseq ([WordB] @ phrase_words ws @ [WordB])"

text \<open>\<open>/\bis\b(?!\s+(less|greater|at|more|no|equal|not))/gi\<close>\<close>

definition re_bare_is :: regex where
  "re_bare_is =
     rseq [WordB, rlit_ci ''is'', WordB,
           NotAhead (rseq [ws1, Grp 1 (ralt [rlit_ci ''less'', rlit_ci ''greater'', rlit_ci ''at'',
                                             rlit_ci ''more'', rlit_ci ''no'', rlit_ci ''equal'',
                                             rlit_ci ''not''])])]"

text \<open>The replacements of natural language operators, in the order of the source.\<close>

definition natural_replacements :: "(regex \<times> tpart list) list" where
  "natural_replacements =
     [(rphrase [''is'', ''less'', ''than''], [TLit ''<'']),
      (rphrase [''is'', ''greater'', ''than''], [TLit ''>'']),
      (rphrase [''is'', ''at'', ''least''], [TLit ''>='']),
      (rphrase [''is'', ''at'', ''most''], [TLit ''<='']),
      (rphrase [''is'', ''more'', ''than''], [TLit ''>'']),
      (rphrase [''is'', ''no'', ''more'', ''than''], [TLit ''<='']),
      (rphrase [''is'', ''no'', ''less'', ''than''], [TLit ''>='']),
      (rphrase [''is'', ''equal'', ''to''], [TLit ''=='']),
      (rphrase [''is'', ''not'', ''equal'', ''to''], [TLit ''!='']),
      (rphrase [''is'', ''not''], [TLit ''!='']),
      (re_bare_is, [TLit ''==''])]"

text \<open>\<open>/\s*==\s*/g\<close> and the five that follow it; \<open>/\$?([\d,]+(?:\.\d+)?)/g\<close>; \<open>/,/g\<close>.\<close>

definition re_number :: regex where
  "re_number =
     rseq [ropt (rchar CHR ''$''),
           Grp 1 (rseq [rplus (Sym (\<lambda>c. isDigit c \<or> c = CHR '','')),
                        ropt (rseq [rchar CHR ''.'', rplus digit])])]"

definition symbol_replacements :: "(regex \<times> tpart list) list" where
  "symbol_replacements =
     [(rseq [ws0, rlit ''=='', ws0], [TLit '' == '']),
      (rseq [ws0, rlit ''!='', ws0], [TLit '' != '']),
      (rseq [ws0, rlit ''<='', ws0], [TLit '' <= '']),
      (rseq [ws0, rlit ''>='', ws0], [TLit '' >= '']),
      (rseq [ws0, rlit ''<'', ws0], [TLit '' < '']),
      (rseq [ws0, rlit ''>'', ws0], [TLit '' > '']),
      (re_number, [TGrp 1]),
      (rchar CHR '','', [])]"

text \<open>\<open>/\bbetween\s+(\S+)\s+and\s+(\S+)/gi\<close> of the first variant.\<close>

definition nonspace :: regex where
  "nonspace = Sym (\<lambda>c. \<not> isSpace c)"

definition between_replacement_v1 :: "regex \<times> tpart list" where
  "between_replacement_v1 =
     (rseq [WordB, rlit_ci ''between'', ws1, Grp 1 (rplus nonspace), ws1, rlit_ci ''and'', ws1,
            Grp 2 (rplus nonspace)],
      [TLit ''>= '', TGrp 1, TLit '') and (_ <= '', TGrp 2])"

text \<open>\<open>/(\w+)\s+between\s+(\S+)\s+and\s+(\S+)/i\<close> of the second variant.\<close>

definition re_between_v2 :: regex where
  "re_between_v2 =
     rseq [Grp 1 (rplus wordc), ws1, rlit_ci ''between'', ws1, Grp 2 (rplus nonspace), ws1,
           rlit_ci ''and'', ws1, Grp 3 (rplus nonspace)]"

text \<open>The boolean words and \<open>/"([^"]+)"/g\<close>.\<close>

definition literal_replacements :: "(regex \<times> tpart list) list" where
  "literal_replacements =
     [(rphrase [''true''], [TLit ''True'']),
      (rphrase [''false''], [TLit ''False'']),
      (rphrase [''yes''], [TLit ''True'']),
      (rphrase [''no''], [TLit ''False'']),
      (rphrase [''eligible''], [TLit ''True'']),
      (rseq [rchar CHR 0x22, Grp 1 (rplus (Sym (\<lambda>c. c \<noteq> CHR 0x22))), rchar CHR 0x22],
       [TLit [CHR 0x27], TGrp 1, TLit [CHR 0x27]])]"

definition apply_replacements :: "(regex \<times> tpart list) list \<Rightarrow> string \<Rightarrow> string" where
  "apply_replacements rs s = fold (\<lambda>(re, t) x. re_replace_all re t x) rs s"

subsection \<open>Conditions\<close>

definition parseCondition_v1 :: "string \<Rightarrow> string" where
  "parseCondition_v1 condition =
     apply_replacements
       (natural_replacements @ symbol_replacements @ [between_replacement_v1] @ literal_replacements)
       condition"

definition parseCondition_v2 :: "string \<Rightarrow> string" where
  "parseCondition_v2 condition =
     (let parsed = apply_replacements natural_replacements condition;
          parsed' =
            (case re_exec re_between_v2 parsed of
               None \<Rightarrow> parsed
             | Some betweenMatch \<Rightarrow>
                 (let varName = grp_str betweenMatch 1;
                      low = grp_str betweenMatch 2;
                      high = grp_str betweenMatch 3
                  in str_replace parsed (m_text betweenMatch)
                       (varName @ '' >= '' @ low @ '') and ('' @ varName @ '' <= '' @ high)))
      in apply_replacements (symbol_replacements @ literal_replacements) parsed')"


subsection \<open>Outcomes\<close>

datatype outcome =
    Eligibility string
  | Payment number string
  | ScheduleRef string
  | Reduction number number
  | Unknown string

text \<open>\<open>/payment\s+is\s+\$?([\d,._]+)(?:\s+per\s+(\w+))?/i\<close>\<close>

definition re_payment :: regex where
  "re_payment =
     rseq [rlit_ci ''payment'', ws1, rlit_ci ''is'', ws1, ropt (rchar CHR ''$''),
           Grp 1 (rplus amount_char),
           ropt (rseq [ws1, rlit_ci ''per'', ws1, Grp 2 (rplus wordc)])]"

text \<open>\<open>/payment\s+reduces\s+by\s+(\d+)\s+cents\s+per\s+dollar\s+over\s+\$?([\d,._]+)/i\<close>\<close>

definition re_reduction :: regex where
  "re_reduction =
     rseq [rlit_ci ''payment'', ws1, rlit_ci ''reduces'', ws1, rlit_ci ''by'', ws1,
           Grp 1 (rplus digit), ws1, rlit_ci ''cents'', ws1, rlit_ci ''per'', ws1,
           rlit_ci ''dollar'', ws1, rlit_ci ''over'', ws1, ropt (rchar CHR ''$''),
           Grp 2 (rplus amount_char)]"

text \<open>\<open>s.replace(/[,_]/g, '')\<close>\<close>

definition strip_separators :: "string \<Rightarrow> string" where
  "strip_separators s = filter (\<lambda>c. c \<noteq> CHR '','' \<and> c \<noteq> CHR ''_'') s"

text \<open>The first eligibility pattern that matches, in the order of the array.\<close>

fun first_match :: "regex list \<Rightarrow> string \<Rightarrow> rmatch_result option" where
  "first_match [] s = None"
| "first_match (re # res) s =
     (case re_exec re s of Some m \<Rightarrow> Some m | None \<Rightarrow> first_match res s)"

definition parseOutcome :: "string \<Rightarrow> outcome" where
  "parseOutcome outcome =
     (case first_match eligibilityPatterns outcome of
        Some m \<Rightarrow> Eligibility (grp_str m 1)
      | None \<Rightarrow>
     (case re_exec re_payment outcome of
        Some paymentMatch \<Rightarrow>
          Payment (parseFloat (strip_separators (grp_str paymentMatch 1)))
                  (case grp paymentMatch 2 of
                     None \<Rightarrow> ''fortnight''
                   | Some p \<Rightarrow> if p = [] then ''fortnight'' else p)
      | None \<Rightarrow>
     (case re_exec re_schedule_ref outcome of
        Some scheduleMatch \<Rightarrow> ScheduleRef (trim (grp_str scheduleMatch 1))
      | None \<Rightarrow>
     (case re_exec re_reduction outcome of
        Some reductionMatch \<Rightarrow>
          Reduction (parseInt (grp_str reductionMatch 1))
                    (parseFloat (strip_separators (grp_str reductionMatch 2)))
      | None \<Rightarrow> Unknown outcome))))"

subsection \<open>The variables of a condition\<close>

text \<open>\<open>/\$[\d,]+(?:\.\d+)?/g\<close>, \<open>/"[^"]*"/g\<close>, \<open>/'[^']*'/g\<close>, \<open>/\b[a-zA-Z_]\w*\b/g\<close>, \<open>/^\d/\<close>\<close>

definition re_money_amount :: regex where
  "re_money_amount =
     rseq [rchar CHR ''$'', rplus (Sym (\<lambda>c. isDigit c \<or> c = CHR '','')),
           ropt (rseq [rchar CHR ''.'', rplus digit])]"

definition re_double_quoted :: regex where
  "re_double_quoted = rseq [rchar CHR 0x22, Star (Sym (\<lambda>c. c \<noteq> CHR 0x22)), rchar CHR 0x22]"

definition re_single_quoted :: regex where
  "re_single_quoted = rseq [rchar CHR 0x27, Star (Sym (\<lambda>c. c \<noteq> CHR 0x27)), rchar CHR 0x27]"

definition re_name :: regex where
  "re_name = rseq [WordB, Sym (\<lambda>c. isAlpha c \<or> c = CHR ''_''), Star wordc, WordB]"

definition re_leading_digit :: regex where
  "re_leading_digit = rseq [Bol, digit]"

definition excludeWords :: "string list" where
  "excludeWords =
     [''true'', ''false'', ''yes'', ''no'', ''eligible'',
      ''and'', ''or'', ''not'', ''between'',
      ''is'', ''are'', ''was'', ''were'', ''be'', ''been'', ''has'', ''have'',
      ''less'', ''greater'', ''than'', ''at'', ''least'', ''most'', ''more'', ''equal'', ''to'',
      ''per'', ''by'', ''cents'', ''cent'', ''dollar'', ''dollars'', ''over'', ''under'',
      ''payment'', ''payments'', ''rate'', ''rates'', ''reduces'', ''reduced'', ''reduction'',
      ''amount'', ''base'', ''maximum'', ''minimum'',
      ''fortnight'', ''fortnightly'', ''week'', ''weekly'', ''month'', ''monthly'',
      ''year'', ''yearly'', ''annual'', ''annually'', ''day'', ''daily'',
      ''all'', ''any'', ''of'', ''these'', ''are'', ''the'', ''a'', ''an'',
      ''then'', ''when'', ''given'', ''and'', ''or'', ''if'']"

definition extractVariables :: "string \<Rightarrow> string list \<Rightarrow> string list" where
  "extractVariables text vars =
     (let cleanText =
            re_replace_all re_single_quoted []
              (re_replace_all re_double_quoted []
                 (re_replace_all re_money_amount [] text))
      in fold (\<lambda>m vs.
                 if toLowerCase m \<notin> set excludeWords \<and> \<not> re_test re_leading_digit m
                 then set_add m vs else vs)
              (re_match_all re_name cleanText) vars)"

subsection \<open>Generated declarations\<close>

text \<open>\<open>\<newline>\<close> inside a text is the line feed. \<open>s.replace(/_/g, ' ')\<close> and
  \<open>s.replace(/\s+/g, '_')\<close>:\<close>

definition underscores_to_spaces :: "string \<Rightarrow> string" where
  "underscores_to_spaces s = map (\<lambda>c. if c = CHR ''_'' then CHR '' '' else c) s"

definition spaces_to_underscore :: "string \<Rightarrow> string" where
  "spaces_to_underscore s = re_replace_all ws1 [TLit ''_''] s"

definition generateVariableDefinitions :: "(string \<Rightarrow> var_info) \<Rightarrow> string list \<Rightarrow> string" where
  "generateVariableDefinitions guessVariableType vars =
     ''# Variable definitions\<newline>'' @
     concat (map (\<lambda>variable.
        (let varInfo = guessVariableType variable;
             valueType = (if vtype varInfo = ''int'' then ''int''
                          else if vtype varInfo = ''str'' then ''str'' else vtype varInfo)
         in ''\<newline>class '' @ variable @ ''(Variable):\<newline>'' @
            ''    value_type = '' @ valueType @ ''\<newline>'' @
            ''    entity = Person\<newline>'' @
            ''    definition_period = '' @ period varInfo @ ''\<newline>'' @
            ''    label = \"'' @ underscores_to_spaces variable @ ''\"\<newline>'')) vars)"

text \<open>A schedule entry, and the \<open>Map\<close> of the schedules in insertion order.\<close>

record schedule_entry =
  e_condition :: string
  e_amount :: number
  e_period :: string

type_synonym schedule_map = "(string \<times> schedule_entry list) list"

definition map_set :: "string \<Rightarrow> schedule_entry list \<Rightarrow> schedule_map \<Rightarrow> schedule_map" where
  "map_set k v m =
     (if k \<in> fst ` set m then map (\<lambda>(k', v'). if k' = k then (k', v) else (k', v')) m
      else m @ [(k, v)])"

definition map_push :: "string \<Rightarrow> schedule_entry \<Rightarrow> schedule_map \<Rightarrow> schedule_map" where
  "map_push k e m = map (\<lambda>(k', v'). if k' = k then (k', v' @ [e]) else (k', v')) m"

text \<open>\<open>s.toLowerCase().replace(/[^a-z0-9]+/g, '_')\<close>\<close>

definition condition_slug :: "string \<Rightarrow> string" where
  "condition_slug s =
     re_replace_all (rplus (Sym (\<lambda>c. \<not> (isLower c \<or> isDigit c)))) [TLit ''_''] (toLowerCase s)"

definition generateScheduleParameters :: "schedule_map \<Rightarrow> string" where
  "generateScheduleParameters schedules =
     ''# Schedule parameters as variables\<newline>'' @
     concat (map (\<lambda>(scheduleName, entries).
        (let paramName = spaces_to_underscore (toLowerCase scheduleName) in
         concat (map (\<lambda>entry.
           (let conditionName = condition_slug (e_condition entry);
                varName = paramName @ ''_'' @ conditionName
            in ''\<newline>class '' @ varName @ ''(Variable):\<newline>'' @
               ''    value_type = float\<newline>'' @
               ''    entity = Person\<newline>'' @
               ''    definition_period = ETERNITY\<newline>'' @
               ''    label = \"'' @ scheduleName @ '' - '' @ e_condition entry @ ''\"\<newline>'' @
               ''    default_value = '' @ num_to_string (e_amount entry) @ ''\<newline>'')) entries)))
       schedules)"

text \<open>\<open>parseScheduleCondition\<close>, with its regular expressions in the order of the source.\<close>

definition re_schedule_between :: regex where
  "re_schedule_between =
     rseq [Grp 1 (rplus wordc), ws1, rlit_ci ''between'', ws1, Grp 2 (rplus digit), ws1,
           rlit_ci ''and'', ws1, Grp 3 (rplus digit)]"

definition person_call :: "string \<Rightarrow> tpart list" where
  "person_call op = [TLit (''person('' @ [CHR 0x27]), TGrp 1, TLit ([CHR 0x27] @ '', period) '' @ op @ '' ''), TGrp 2]"

definition schedule_replacements :: "(regex \<times> tpart list) list" where
  "schedule_replacements =
     [(rseq ([Grp 1 (rplus wordc), ws1] @ phrase_words [''is'', ''less'', ''than''] @ [ws1, Grp 2 (rplus digit)]),
       person_call ''<''),
      (rseq ([Grp 1 (rplus wordc), ws1] @ phrase_words [''is'', ''greater'', ''than''] @ [ws1, Grp 2 (rplus digit)]),
       person_call ''>''),
      (rseq ([Grp 1 (rplus wordc), ws1] @ phrase_words [''is'', ''at'', ''least''] @ [ws1, Grp 2 (rplus digit)]),
       person_call ''>=''),
      (rseq ([Grp 1 (rplus wordc), ws1] @ phrase_words [''is'', ''at'', ''most''] @ [ws1, Grp 2 (rplus digit)]),
       person_call ''<=''),
      (rseq [Grp 1 (rplus wordc), ws1, rlit ''<'', ws1, Grp 2 (rplus digit)], person_call ''<''),
      (rseq [Grp 1 (rplus wordc), ws1, rlit ''>'', ws1, Grp 2 (rplus digit)], person_call ''>''),
      (rseq [Grp 1 (rplus wordc), ws1, rlit ''<='', ws1, Grp 2 (rplus digit)], person_call ''<=''),
      (rseq [Grp 1 (rplus wordc), ws1, rlit ''>='', ws1, Grp 2 (rplus digit)], person_call ''>='')]"

definition parseScheduleCondition :: "string \<Rightarrow> string" where
  "parseScheduleCondition condition =
     (case re_exec re_schedule_between condition of
        Some betweenMatch \<Rightarrow>
          (let varName = grp_str betweenMatch 1;
               low = grp_str betweenMatch 2;
               high = grp_str betweenMatch 3
           in ''person('' @ [CHR 0x27] @ varName @ [CHR 0x27] @ '', period) >= '' @ low @
              '' and person('' @ [CHR 0x27] @ varName @ [CHR 0x27] @ '', period) <= '' @ high)
      | None \<Rightarrow>
          (let parsed = apply_replacements schedule_replacements condition in
           if \<not> str_includes parsed ''person('' then
             ''person('' @ [CHR 0x27] @ ''family_situation'' @ [CHR 0x27] @ '', period) == '' @
             [CHR 0x27] @ condition @ [CHR 0x27]
           else parsed))"


subsection \<open>The code of a scenario\<close>

text \<open>\<open>name.replace(/\s+/g, '_').toLowerCase()\<close>\<close>

definition class_name :: "string \<Rightarrow> string" where
  "class_name name = toLowerCase (spaces_to_underscore name)"

text \<open>The head of the eligibility class, the same in both variants.\<close>

definition eligibility_head :: "string \<Rightarrow> string" where
  "eligibility_head name =
     ''\<newline>class '' @ class_name name @ ''_eligible(Variable):\<newline>'' @
     ''    value_type = bool\<newline>'' @
     ''    entity = Person\<newline>'' @
     ''    definition_period = MONTH\<newline>'' @
     ''    label = \"'' @ name @ '' eligibility\"\<newline>'' @
     ''    documentation = \"\"\"\<newline>'' @
     ''    '' @ name @ '' eligibility conditions.\<newline>'' @
     ''    \"\"\"\<newline>'' @
     ''    \<newline>'' @
     ''    def formula(person, period, parameters):\<newline>''"

text \<open>The loop over the conditions that declares each name once: \<open>usedVars\<close> is the set
  of the names seen, the result the lines emitted.\<close>

definition reserved_names :: "string list" where
  "reserved_names = [''True'', ''False'', ''and'', ''or'', ''not'']"

definition declare_var :: "string \<Rightarrow> string list \<times> string \<Rightarrow> string list \<times> string" where
  "declare_var varName acc =
     (if varName \<notin> set reserved_names \<and> \<not> re_test re_leading_digit varName \<and>
         varName \<notin> set (fst acc)
      then (fst acc @ [varName],
            snd acc @ ''        '' @ varName @ '' = person('' @ [CHR 0x27] @ varName @ [CHR 0x27] @
              '', period)\<newline>'')
      else acc)"

definition variable_lines :: "string list \<Rightarrow> string" where
  "variable_lines conditions =
     snd (fold (\<lambda>condition acc. fold declare_var (re_match_all re_name condition) acc)
               conditions ([], []))"

text \<open>\<open>/\s+([<>=]+)\s+/g\<close>, \<open>/\)\s+and\s+\(_/g\<close> and
  \<open>/(\w+)\s*>=\s*\d+\)\s*and\s*\((\w+)\s*<=\s*\d+/\<close>\<close>

definition re_operator_spacing :: regex where
  "re_operator_spacing =
     rseq [ws1, Grp 1 (rplus (Sym (\<lambda>c. c = CHR ''<'' \<or> c = CHR ''>'' \<or> c = CHR ''=''))), ws1]"

definition re_between_fix_v1 :: regex where
  "re_between_fix_v1 = rseq [rchar CHR '')'', ws1, rlit ''and'', ws1, rlit ''(_'']"

definition re_between_var_v2 :: regex where
  "re_between_var_v2 =
     rseq [Grp 1 (rplus wordc), ws0, rlit ''>='', ws0, rplus digit, rchar CHR '')'', ws0, rlit ''and'', ws0,
           rchar CHR ''('', Grp 2 (rplus wordc), ws0, rlit ''<='', ws0, rplus digit]"

definition fixedCondition_v1 :: "string \<Rightarrow> string" where
  "fixedCondition_v1 condition =
     re_replace_all re_between_fix_v1 [TLit '') and ('']
       (re_replace_all re_operator_spacing [TLit '' '', TGrp 1, TLit '' ''] condition)"

definition fixedCondition_v2 :: "string \<Rightarrow> string" where
  "fixedCondition_v2 condition =
     (let fixedCondition = re_replace_all re_operator_spacing [TLit '' '', TGrp 1, TLit '' ''] condition
      in case re_exec re_between_var_v2 fixedCondition of
           None \<Rightarrow> fixedCondition
         | Some betweenVarMatch \<Rightarrow>
             if grp_str betweenVarMatch 1 \<noteq> []
             then str_replace fixedCondition (grp_str betweenVarMatch 2) (grp_str betweenVarMatch 1)
             else fixedCondition)"

text \<open>The \<open>return\<close> statement of the eligibility formula: one line per condition.\<close>

fun condition_lines :: "(string \<Rightarrow> string) \<Rightarrow> nat \<Rightarrow> string list \<Rightarrow> string" where
  "condition_lines fix idx [] = []"
| "condition_lines fix idx (condition # rest) =
     ''            '' @ (if idx > 0 then ''and '' else []) @ ''('' @ fix condition @ '')\<newline>'' @
     condition_lines fix (Suc idx) rest"

definition eligibility_return :: "(string \<Rightarrow> string) \<Rightarrow> string list \<Rightarrow> string" where
  "eligibility_return fix conditions =
     (if length conditions > 0 then
        ''\<newline>        return (\<newline>'' @ condition_lines fix 0 conditions @ ''        )\<newline>''
      else ''        return True\<newline>'')"

text \<open>\<open>outcomes.find\<close> and \<open>outcomes.filter\<close> by the type of the outcome.\<close>

fun is_eligibility :: "outcome \<Rightarrow> bool" where
  "is_eligibility (Eligibility v) = True"
| "is_eligibility _ = False"

fun is_payment :: "outcome \<Rightarrow> bool" where
  "is_payment (Payment a p) = True"
| "is_payment _ = False"

fun is_schedule :: "outcome \<Rightarrow> bool" where
  "is_schedule (ScheduleRef n) = True"
| "is_schedule _ = False"

fun is_reduction :: "outcome \<Rightarrow> bool" where
  "is_reduction (Reduction c t) = True"
| "is_reduction _ = False"

text \<open>The head of the payment class; the definition period is \<open>DAY\<close> in the first variant
  and \<open>MONTH\<close> in the second.\<close>

definition payment_head :: "string \<Rightarrow> string \<Rightarrow> string" where
  "payment_head definition_period name =
     ''\<newline>\<newline>class '' @ class_name name @ ''_payment(Variable):\<newline>'' @
     ''    value_type = float\<newline>'' @
     ''    entity = Person\<newline>'' @
     ''    definition_period = '' @ definition_period @ ''\<newline>'' @
     ''    label = \"'' @ name @ '' payment amount\"\<newline>'' @
     ''    documentation = \"\"\"\<newline>'' @
     ''    '' @ name @ '' payment calculation.\<newline>'' @
     ''    \"\"\"\<newline>'' @
     ''    \<newline>'' @
     ''    def formula(person, period, parameters):\<newline>'' @
     ''        eligible = person('' @ [CHR 0x27] @ class_name name @ ''_eligible'' @ [CHR 0x27] @
       '', period)\<newline>'' @
     ''        \<newline>'' @
     ''        if not eligible:\<newline>'' @
     ''            return 0\<newline>'' @
     ''        \<newline>''"

definition payment_tail :: string where
  "payment_tail = ''        \<newline>        return base_amount\<newline>''"

definition generateScenarioCode_v1 :: "string \<Rightarrow> string list \<Rightarrow> outcome list \<Rightarrow> string" where
  "generateScenarioCode_v1 name conditions outcomes =
     (let paymentOutcomes = filter (\<lambda>oc. \<not> is_eligibility oc) outcomes;
          paymentOutcome = find is_payment paymentOutcomes;
          scheduleOutcome = find is_schedule paymentOutcomes;
          reductionOutcomes = filter is_reduction paymentOutcomes
      in
      eligibility_head name @ variable_lines conditions @
      eligibility_return fixedCondition_v1 conditions @
      (if paymentOutcome \<noteq> None \<or> scheduleOutcome \<noteq> None then
         payment_head ''DAY'' name @
         (case paymentOutcome of
            Some (Payment amount p) \<Rightarrow>
              ''        # Base payment amount\<newline>'' @
              ''        base_amount = '' @ num_to_string amount @ ''\<newline>''
          | _ \<Rightarrow>
              (case scheduleOutcome of
                 Some (ScheduleRef schedule) \<Rightarrow>
                   ''        # Payment from schedule: '' @ schedule @ ''\<newline>'' @
                   ''        # TODO: Implement schedule lookup\<newline>'' @
                   ''        base_amount = 0  # parameters.'' @
                     spaces_to_underscore (toLowerCase schedule) @ ''[period]\<newline>''
               | _ \<Rightarrow> [])) @
         (if length reductionOutcomes > 0 then
            ''        \<newline>        # Apply income test reductions\<newline>'' @
            concat (map (\<lambda>reduction.
              (case reduction of
                 Reduction cents threshold \<Rightarrow>
                   ''        # Reduces by '' @ num_to_string cents @
                     '' cents per dollar over $'' @ num_to_string threshold @ ''\<newline>'' @
                   ''        # TODO: Implement reduction calculation\<newline>''
               | _ \<Rightarrow> [])) reductionOutcomes)
          else []) @
         payment_tail
       else []))"

definition schedule_branches :: "string \<Rightarrow> schedule_entry list \<Rightarrow> string" where
  "schedule_branches scheduleName schedule =
     concat (map (\<lambda>(idx, entry).
        (let conditionCode = parseScheduleCondition (e_condition entry);
             paramName = spaces_to_underscore (toLowerCase scheduleName);
             conditionName = condition_slug (e_condition entry);
             varName = paramName @ ''_'' @ conditionName
         in (if idx = 0 then ''        if '' else ''        elif '') @ conditionCode @ '':\<newline>'' @
            ''            base_amount = person('' @ [CHR 0x27] @ varName @ [CHR 0x27] @
              '', period)\<newline>''))
       (zip [0 ..< length schedule] schedule))"

definition generateScenarioCode_v2 ::
    "string \<Rightarrow> string list \<Rightarrow> outcome list \<Rightarrow> schedule_map \<Rightarrow> string" where
  "generateScenarioCode_v2 name conditions outcomes schedules =
     (let paymentOutcomes = filter (\<lambda>oc. \<not> is_eligibility oc) outcomes;
          paymentOutcome = find is_payment paymentOutcomes;
          scheduleOutcome = find is_schedule paymentOutcomes;
          reductionOutcomes = filter is_reduction paymentOutcomes
      in
      eligibility_head name @ variable_lines conditions @
      eligibility_return fixedCondition_v2 conditions @
      (if paymentOutcome \<noteq> None \<or> scheduleOutcome \<noteq> None \<or> length reductionOutcomes > 0 then
         payment_head ''MONTH'' name @
         (case paymentOutcome of
            Some (Payment amount p) \<Rightarrow>
              ''        # Base payment amount\<newline>'' @
              ''        base_amount = '' @ num_to_string amount @ ''\<newline>''
          | _ \<Rightarrow>
              (case scheduleOutcome of
                 Some (ScheduleRef scheduleName) \<Rightarrow>
                   (case map_of schedules scheduleName of
                      Some (e # es) \<Rightarrow>
                        ''        # Payment from schedule: '' @ scheduleName @ ''\<newline>'' @
                        schedule_branches scheduleName (e # es) @
                        ''        else:\<newline>'' @
                        ''            base_amount = 0\<newline>''
                    | _ \<Rightarrow>
                        ''        # Schedule not found\<newline>'' @
                        ''        base_amount = 0\<newline>'')
               | _ \<Rightarrow> ''        base_amount = 0\<newline>'')) @
         (if length reductionOutcomes > 0 then
            ''        \<newline>        # Apply income test reductions\<newline>'' @
            ''        income = person('' @ [CHR 0x27] @ ''income'' @ [CHR 0x27] @ '', period)\<newline>'' @
            concat (map (\<lambda>reduction.
              (case reduction of
                 Reduction cents threshold \<Rightarrow>
                   ''        if income > '' @ num_to_string threshold @ '':\<newline>'' @
                   ''            base_amount = max(0, base_amount - (income - '' @
                     num_to_string threshold @ '') * '' @ num_to_string (cents_rate cents) @ '')\<newline>''
               | _ \<Rightarrow> [])) reductionOutcomes)
          else []) @
         payment_tail
       else []))"


subsection \<open>The compiler\<close>

text \<open>
  The header of the generated text carries the day of the compilation,
  \<open>new Date().toLocaleDateString('en-AU')\<close>. The day is not part of the input text: it is
  the parameter \<open>created\<close> of the two compilers.
\<close>

definition header :: "string \<Rightarrow> string" where
  "header created =
     ''\"\"\"\<newline>'' @
     ''Generated OpenFisca code from Courgette rules\<newline>'' @
     ''Created: '' @ created @ ''\<newline>'' @
     ''\<newline>'' @
     ''Note: This generated code should be validated with OpenFisca'' @ [CHR 0x27] @ ''s type checker\<newline>'' @
     ''Run: openfisca test [this_file.py] --verbose\<newline>'' @
     ''\"\"\"\<newline>'' @
     ''\<newline>'' @
     ''from openfisca_core.model_api import *\<newline>'' @
     ''from openfisca_core.periods import MONTH, YEAR, DAY, ETERNITY\<newline>'' @
     ''\<newline>''"

text \<open>\<open>/^(When|Given|And)\s+/\<close> and \<open>/^Or\s+/\<close>\<close>

definition re_when_given_and :: regex where
  "re_when_given_and = rseq [Bol, Grp 1 (ralt [rlit ''When'', rlit ''Given'', rlit ''And'']), ws1]"

definition re_or :: regex where
  "re_or = rseq [Bol, rlit ''Or'', ws1]"

text \<open>A variable that holds a string or \<open>null\<close> is true in a test when it holds a string
  that is not empty.\<close>

definition truthy :: "string option \<Rightarrow> bool" where
  "truthy x = (case x of None \<Rightarrow> False | Some s \<Rightarrow> s \<noteq> [])"

text \<open>The variables of the loop over the lines. \<open>c_output\<close> is used by the first variant
  only, \<open>c_scenarios\<close> and \<open>c_schedules\<close> by the second only.\<close>

record cstate =
  c_currentScenario :: "string option"
  c_currentDefinition :: "string option"
  c_currentSchedule :: "string option"
  c_variables :: "string list"
  c_conditions :: "string list"
  c_outcomes :: "outcome list"
  c_inConditions :: bool
  c_output :: string
  c_scenarios :: "(string \<times> string list \<times> outcome list) list"
  c_schedules :: schedule_map

definition init_cstate :: "string \<Rightarrow> cstate" where
  "init_cstate out =
     \<lparr>c_currentScenario = None, c_currentDefinition = None, c_currentSchedule = None,
      c_variables = [], c_conditions = [], c_outcomes = [], c_inConditions = True,
      c_output = out, c_scenarios = [], c_schedules = []\<rparr>"

text \<open>A condition found on a line: kept unless it is empty or contains a colon.\<close>

definition add_condition :: "(string \<Rightarrow> string) \<Rightarrow> string \<Rightarrow> cstate \<Rightarrow> cstate" where
  "add_condition parseCondition condition st =
     (if condition \<noteq> [] \<and> \<not> str_includes condition '':'' then
        st\<lparr>c_conditions := c_conditions st @ [parseCondition condition],
           c_variables := extractVariables condition (c_variables st)\<rparr>
      else st)"

definition add_list_item :: "(string \<Rightarrow> string) \<Rightarrow> string \<Rightarrow> cstate \<Rightarrow> cstate" where
  "add_list_item parseCondition trimmed st =
     (let item = trim (substring trimmed 1) in
      if c_inConditions st then
        st\<lparr>c_conditions := c_conditions st @ [parseCondition item],
           c_variables := extractVariables item (c_variables st)\<rparr>
      else st)"

definition add_outcome :: "string \<Rightarrow> cstate \<Rightarrow> cstate" where
  "add_outcome trimmed st =
     (let outcome = re_replace re_outcome_keyword [] trimmed in
      st\<lparr>c_inConditions := False, c_outcomes := c_outcomes st @ [parseOutcome outcome]\<rparr>)"

text \<open>The lines of a scenario. The first variant takes a \<open>Then\<close> or \<open>And\<close> line as an outcome
  only when the line contains \<open>is\<close>.\<close>

definition scenario_part_v1 :: "string \<Rightarrow> cstate \<Rightarrow> cstate" where
  "scenario_part_v1 trimmed st =
     (if re_test re_when_given_and trimmed \<and> c_inConditions st then
        add_condition parseCondition_v1 (re_replace re_when_given_and [] trimmed) st
      else if startsWith trimmed ''Or'' \<and> c_inConditions st then
        add_condition parseCondition_v1 (re_replace re_or [] trimmed) st
      else if re_test re_outcome_keyword trimmed \<and> str_includes trimmed ''is'' then
        add_outcome trimmed st
      else if startsWith trimmed ''-'' then add_list_item parseCondition_v1 trimmed st
      else st)"

definition scenario_part_v2 :: "string \<Rightarrow> cstate \<Rightarrow> cstate" where
  "scenario_part_v2 trimmed st =
     (if re_test re_when_given_and trimmed \<and> c_inConditions st then
        add_condition parseCondition_v2 (re_replace re_when_given_and [] trimmed) st
      else if startsWith trimmed ''Or'' \<and> c_inConditions st then
        add_condition parseCondition_v2 (re_replace re_or [] trimmed) st
      else if re_test re_outcome_keyword trimmed then
        add_outcome trimmed st
      else if startsWith trimmed ''-'' then add_list_item parseCondition_v2 trimmed st
      else st)"

definition compile_line_v1 :: "string \<Rightarrow> cstate \<Rightarrow> cstate" where
  "compile_line_v1 ln st =
     (let trimmed = trim ln in
      if startsWith trimmed ''Scenario:'' then
        (let st1 = (case c_currentScenario st of
                      None \<Rightarrow> st
                    | Some name \<Rightarrow>
                        if name \<noteq> [] then
                          st\<lparr>c_output := c_output st @
                               generateScenarioCode_v1 name (c_conditions st) (c_outcomes st)\<rparr>
                        else st)
         in st1\<lparr>c_currentScenario := Some (trim (substring trimmed 9)),
                c_conditions := [], c_outcomes := [], c_inConditions := True\<rparr>)
      else if startsWith trimmed ''Definition:'' then
        st\<lparr>c_currentDefinition := Some (trim (substring trimmed 11))\<rparr>
      else if startsWith trimmed ''Schedule:'' then
        st\<lparr>c_currentSchedule := Some (trim (substring trimmed 9))\<rparr>
      else if truthy (c_currentScenario st) then scenario_part_v1 trimmed st
      else st)"

definition compileToOpenFisca_v1 :: "string \<Rightarrow> string \<Rightarrow> string" where
  "compileToOpenFisca_v1 created courgette =
     (let lines = split_char (CHR 0x0A) courgette;
          st = fold compile_line_v1 lines (init_cstate (header created));
          output = (case c_currentScenario st of
                      None \<Rightarrow> c_output st
                    | Some name \<Rightarrow>
                        if name \<noteq> [] then
                          c_output st @ generateScenarioCode_v1 name (c_conditions st) (c_outcomes st)
                        else c_output st)
      in generateVariableDefinitions guessVariableType_v1 (c_variables st) @ ''\<newline>\<newline>'' @ output)"

definition compile_line_v2 :: "string \<Rightarrow> cstate \<Rightarrow> cstate" where
  "compile_line_v2 ln st =
     (let trimmed = trim ln in
      if startsWith trimmed ''Scenario:'' then
        (let st1 = (case c_currentScenario st of
                      None \<Rightarrow> st
                    | Some name \<Rightarrow>
                        if name \<noteq> [] then
                          st\<lparr>c_scenarios := c_scenarios st @
                               [(name, c_conditions st, c_outcomes st)]\<rparr>
                        else st)
         in st1\<lparr>c_currentScenario := Some (trim (substring trimmed 9)),
                c_conditions := [], c_outcomes := [], c_inConditions := True,
                c_currentSchedule := None\<rparr>)
      else if startsWith trimmed ''Definition:'' then
        st\<lparr>c_currentDefinition := Some (trim (substring trimmed 11)), c_currentSchedule := None\<rparr>
      else if startsWith trimmed ''Schedule:'' then
        (let name = trim (substring trimmed 9) in
         st\<lparr>c_currentSchedule := Some name, c_schedules := map_set name [] (c_schedules st)\<rparr>)
      else if truthy (c_currentSchedule st) \<and> startsWith trimmed ''When '' then
        (case re_exec re_schedule_entry trimmed of
           None \<Rightarrow> st
         | Some m \<Rightarrow>
             st\<lparr>c_schedules :=
                  map_push (case c_currentSchedule st of None \<Rightarrow> [] | Some n \<Rightarrow> n)
                    \<lparr>e_condition = grp_str m 1,
                     e_amount = parseFloat (strip_separators (grp_str m 2)),
                     e_period = (case grp m 3 of
                                   None \<Rightarrow> ''fortnight''
                                 | Some p \<Rightarrow> if p = [] then ''fortnight'' else p)\<rparr>
                    (c_schedules st)\<rparr>)
      else if truthy (c_currentScenario st) then scenario_part_v2 trimmed st
      else st)"

definition compileToOpenFisca_v2 :: "string \<Rightarrow> string \<Rightarrow> string" where
  "compileToOpenFisca_v2 created courgette =
     (let lines = split_char (CHR 0x0A) courgette;
          st = fold compile_line_v2 lines (init_cstate []);
          scenarios = (case c_currentScenario st of
                         None \<Rightarrow> c_scenarios st
                       | Some name \<Rightarrow>
                           if name \<noteq> [] then
                             c_scenarios st @ [(name, c_conditions st, c_outcomes st)]
                           else c_scenarios st)
      in header created @
         generateVariableDefinitions guessVariableType_v2 (c_variables st) @ ''\<newline>'' @
         (if length (c_schedules st) > 0
          then generateScheduleParameters (c_schedules st) @ ''\<newline>'' else []) @
         concat (map (\<lambda>(name, conditions, outcomes).
                   generateScenarioCode_v2 name conditions outcomes (c_schedules st)) scenarios))"


section \<open>Vocabulary of the properties\<close>

text \<open>
  The notions the properties of the validator are stated with. A line begins with a
  keyword when the keyword is followed by white space; a header line opens a block.
\<close>

definition regular_at :: "int \<Rightarrow> diagnostic list \<Rightarrow> bool" where
  "regular_at n ds = list_all (\<lambda>d. line d = n \<and> message d \<noteq> ''Scenario missing outcome statements (Then...)'') ds"

definition is_scenario_header :: "string \<Rightarrow> bool" where
  "is_scenario_header ln = startsWith (trim ln) ''Scenario:''"

definition is_other_header :: "string \<Rightarrow> bool" where
  "is_other_header ln = (startsWith (trim ln) ''Definition:'' \<or> startsWith (trim ln) ''Schedule:'')"


definition closing :: "string list \<Rightarrow> string \<Rightarrow> vstate \<Rightarrow> diagnostic list" where
  "closing lines ln st =
     (if is_scenario_header ln \<and> currentBlock st = Some Scenario \<and> \<not> hasOutcomes st
      then [missing_outcome lines (blockStartLine st)] else [])"

definition keyword_line :: "string \<Rightarrow> string \<Rightarrow> bool" where
  "keyword_line kw t = (prefix kw t \<and> (case drop (length kw) t of [] \<Rightarrow> False | x # _ \<Rightarrow> isSpace x))"

definition regular :: "diagnostic \<Rightarrow> bool" where
  "regular d = (message d \<noteq> ''Scenario missing outcome statements (Then...)'')"

definition then_line :: "string \<Rightarrow> bool" where
  "then_line ln = keyword_line ''Then'' (trim ln)"

definition missing_at :: "int \<Rightarrow> diagnostic list \<Rightarrow> diagnostic list" where
  "missing_at n ds =
     filter (\<lambda>d. message d = ''Scenario missing outcome statements (Then...)'' \<and> line d = n) ds"


text \<open>The block a line stands in: the kind of the last header among the lines before it.\<close>

definition header_step :: "string \<Rightarrow> block option \<Rightarrow> block option" where
  "header_step ln b =
     (if startsWith (trim ln) ''Scenario:'' then Some Scenario
      else if startsWith (trim ln) ''Definition:'' then Some Definition
      else if startsWith (trim ln) ''Schedule:'' then Some Schedule
      else b)"

definition current_block :: "string list \<Rightarrow> block option" where
  "current_block ls = fold header_step ls None"

text \<open>A state of the first compiler whose output is preceded by a given text.\<close>

definition with_prefix :: "string \<Rightarrow> cstate \<Rightarrow> cstate" where
  "with_prefix out st = st\<lparr>c_output := out @ c_output st\<rparr>"



text \<open>
  The text of a condition line after its keyword, \<open>rest.join(' ')\<close> of the words of the
  line, the text of an outcome line after its keyword, and the two endings by which a
  condition line opens a group of list items.
\<close>

definition condition_text :: "string \<Rightarrow> string" where
  "condition_text ln = join '' '' (tl (split_ws (trim ln)))"

definition outcome_text :: "string \<Rightarrow> string" where
  "outcome_text ln = re_replace re_outcome_keyword [] (trim ln)"

definition opens_group :: "string \<Rightarrow> bool" where
  "opens_group c = (endsWith c ''these are true:'' \<or> endsWith c ''the following:'')"

definition outcome_without_condition :: "string list \<Rightarrow> nat \<Rightarrow> diagnostic" where
  "outcome_without_condition lines idx =
     \<lparr>line = int idx + 1, column = 1,
      message = ''Outcomes (Then) must follow conditions (When/Given)'',
      severity = SevError,
      startOffset = getOffset lines idx 0,
      endOffset = getOffset lines idx 4\<rparr>"

text \<open>
  The scenario that is open and still without outcome after some lines of a document, read
  from the last line backwards: the number of the line of its header. A \<open>Definition:\<close> or
  \<open>Schedule:\<close> header ends the scenario before it, a \<open>Then\<close> line gives it an outcome.
\<close>

fun open_scenario :: "string list \<Rightarrow> int option" where
  "open_scenario [] = None"
| "open_scenario (ln # before) =
     (if is_scenario_header ln then Some (int (length before) + 1)
      else if is_other_header ln \<or> then_line ln then None
      else open_scenario before)"

text \<open>
  The missing-outcome finding raised at line \<open>k\<close> of a document (counted from 0): the line is a
  \<open>Scenario:\<close> header and the lines before it leave a scenario open without outcome. The
  finding is made with the whole document, \<open>missing_outcome lines\<close>.
\<close>

definition closing_at :: "string list \<Rightarrow> nat \<Rightarrow> diagnostic list" where
  "closing_at lines k =
     (if is_scenario_header (lines ! k) then
        (case open_scenario (rev (take k lines)) of
           None \<Rightarrow> []
         | Some n \<Rightarrow> [missing_outcome lines n])
      else [])"

text \<open>The diagnostics of a document whose lines have the findings \<open>gs\<close> of their own.\<close>

definition line_by_line :: "string list \<Rightarrow> diagnostic list list \<Rightarrow> diagnostic list" where
  "line_by_line lines gs =
     concat (map (\<lambda>k. tab_check lines k (lines ! k) @ closing_at lines k @ gs ! k)
                 [0..<length lines])
     @ (case open_scenario (rev lines) of
          None \<Rightarrow> []
        | Some n \<Rightarrow> [missing_outcome lines n])"

text \<open>
  An invocation of the tool: the text it is given and the day on which it runs, as
  \<open>new Date().toLocaleDateString('en-AU')\<close> writes it.
\<close>

record invocation =
  inv_text :: string
  inv_day :: string

definition validate_at :: "invocation \<Rightarrow> diagnostic list" where
  "validate_at i = validateCourgette (inv_text i)"

definition compile_v1_at :: "invocation \<Rightarrow> string" where
  "compile_v1_at i = compileToOpenFisca_v1 (inv_day i) (inv_text i)"

definition compile_v2_at :: "invocation \<Rightarrow> string" where
  "compile_v2_at i = compileToOpenFisca_v2 (inv_day i) (inv_text i)"
section \<open>Character classes by their bits\<close>

text \<open>
  The character classes are decided on the bits of a character; these equations are the
  ones used when a definition is evaluated on a concrete text.
\<close>

lemma isDigit_bits [code]:
  "isDigit (Char b0 b1 b2 b3 b4 b5 b6 b7) =
     (\<not> b7 \<and> \<not> b6 \<and> b5 \<and> b4 \<and> (\<not> b3 \<or> (\<not> b2 \<and> \<not> b1)))"
  by (cases b0; cases b1; cases b2; cases b3; cases b4; cases b5; cases b6; cases b7)
     (simp_all add: isDigit_def ccode_def)

lemma isUpper_bits [code]:
  "isUpper (Char b0 b1 b2 b3 b4 b5 b6 b7) =
     (\<not> b7 \<and> b6 \<and> \<not> b5 \<and> (b0 \<or> b1 \<or> b2 \<or> b3 \<or> b4) \<and>
      (\<not> b4 \<or> \<not> b3 \<or> (\<not> b2 \<and> \<not> (b1 \<and> b0))))"
  by (cases b0; cases b1; cases b2; cases b3; cases b4; cases b5; cases b6; cases b7)
     (simp_all add: isUpper_def ccode_def)

lemma isLower_bits [code]:
  "isLower (Char b0 b1 b2 b3 b4 b5 b6 b7) =
     (\<not> b7 \<and> b6 \<and> b5 \<and> (b0 \<or> b1 \<or> b2 \<or> b3 \<or> b4) \<and>
      (\<not> b4 \<or> \<not> b3 \<or> (\<not> b2 \<and> \<not> (b1 \<and> b0))))"
  by (cases b0; cases b1; cases b2; cases b3; cases b4; cases b5; cases b6; cases b7)
     (simp_all add: isLower_def ccode_def)

lemma isSpace_bits [code]:
  "isSpace (Char b0 b1 b2 b3 b4 b5 b6 b7) =
     (\<not> b6 \<and> \<not> b4 \<and>
      ((\<not> b7 \<and> \<not> b5 \<and> b3 \<and> ((\<not> b2 \<and> (b1 \<or> b0)) \<or> (b2 \<and> \<not> b1))) \<or>
       (b5 \<and> \<not> b3 \<and> \<not> b2 \<and> \<not> b1 \<and> \<not> b0)))"
  by (cases b0; cases b1; cases b2; cases b3; cases b4; cases b5; cases b6; cases b7)
     (simp_all add: isSpace_def ccode_def)

lemma isLineTerminator_bits [code]:
  "isLineTerminator (Char b0 b1 b2 b3 b4 b5 b6 b7) =
     (\<not> b7 \<and> \<not> b6 \<and> \<not> b5 \<and> \<not> b4 \<and> b3 \<and> ((\<not> b2 \<and> b1 \<and> \<not> b0) \<or> (b2 \<and> \<not> b1 \<and> b0)))"
  by (cases b0; cases b1; cases b2; cases b3; cases b4; cases b5; cases b6; cases b7)
     (simp_all add: isLineTerminator_def ccode_def)

lemma toLowerChar_bits [code]:
  "toLowerChar (Char b0 b1 b2 b3 b4 b5 b6 b7) =
     (if isUpper (Char b0 b1 b2 b3 b4 b5 b6 b7) \<or>
         (b7 \<and> b6 \<and> \<not> b5 \<and> \<not> (b4 \<and> b2 \<and> b1 \<and> b0))
      then Char b0 b1 b2 b3 b4 True b6 b7 else Char b0 b1 b2 b3 b4 b5 b6 b7)"
  by (cases b0; cases b1; cases b2; cases b3; cases b4; cases b5; cases b6; cases b7)
     (simp_all add: toLowerChar_def isUpper_def ccode_def char_of_def)


section \<open>Properties of the variable inference\<close>

text \<open>
  C3 (as stated, refuted on the second variant): \<open>guessVariableType("is_student")\<close> yields
  \<open>{bool, DAY}\<close>. The second variant of \<open>compiler.js\<close> gives the boolean indicators the
  definition period \<open>MONTH\<close>.
\<close>

theorem C3_is_student_v2_not_DAY:
  "guessVariableType_v2 ''is_student'' \<noteq> \<lparr>vtype = ''bool'', period = ''DAY''\<rparr>"
  by code_simp

text \<open>
  C3 (amended): \<open>guessVariableType\<close> is a function of the name alone and applies its rules
  in their fixed order. \<open>residence_years\<close> yields \<open>{int, YEAR}\<close> in both variants;
  \<open>is_student\<close> yields \<open>{bool, DAY}\<close> in the first variant and \<open>{bool, MONTH}\<close> in the second.
\<close>

theorem C3_guessVariableType_values:
  "guessVariableType_v1 ''residence_years'' = \<lparr>vtype = ''int'', period = ''YEAR''\<rparr> \<and>
   guessVariableType_v2 ''residence_years'' = \<lparr>vtype = ''int'', period = ''YEAR''\<rparr> \<and>
   guessVariableType_v1 ''is_student'' = \<lparr>vtype = ''bool'', period = ''DAY''\<rparr> \<and>
   guessVariableType_v2 ''is_student'' = \<lparr>vtype = ''bool'', period = ''MONTH''\<rparr>"
  by code_simp

section \<open>Facts about the matcher\<close>

text \<open>
  The recursive equations of the matcher are not simplification rules; the equations of
  the constructors that do not iterate are collected here. A keyword pattern
  \<open>^(K1|...|Kn)\s+\<close> matches a text exactly when the text begins with one of the keywords
  followed by white space.
\<close>

lemmas rmatch_basic = rmatch.simps(1,2,3,4,7,8,9,10,11)

lemma rmatch_rchar:
  "rmatch (rchar a) p r c = (case r of [] \<Rightarrow> [] | x # xs \<Rightarrow> if x = a then [(Some x, xs, c)] else [])"
  by (simp add: rchar_def rmatch_basic)

lemma rmatch_rlit:
  "rmatch (rlit s) p r c =
     (if prefix s r then [(if s = [] then p else Some (last s), drop (length s) r, c)] else [])"
proof (induction s arbitrary: p r)
  case Nil
  then show ?case by (simp add: rlit_def rseq_def rmatch_basic)
next
  case (Cons a s)
  have unf: "rlit (a # s) = Seq (rchar a) (rlit s)"
    by (simp add: rlit_def rseq_def)
  show ?case
  proof (cases r)
    case Nil
    then show ?thesis by (simp add: unf rmatch_rchar rmatch_basic)
  next
    case (Cons x xs)
    then show ?thesis
      by (simp add: unf rmatch_rchar Cons.IH rmatch_basic)
  qed
qed

lemma re_exec_from_Bol:
  "p \<noteq> None \<Longrightarrow> re_exec_from (Seq Bol x) i p r = None"
proof (induction r arbitrary: i p)
  case Nil
  then show ?case by (subst re_exec_from.simps) (auto simp: rmatch_basic)
next
  case (Cons a r)
  have "re_exec_from (Seq Bol x) (Suc i) (Some a) r = None"
    by (rule Cons.IH) simp
  with Cons.prems show ?case by (subst re_exec_from.simps) (auto simp: rmatch_basic)
qed

lemma re_test_Bol:
  "re_test (Seq Bol x) t = (rmatch x None t [] \<noteq> [])"
proof (cases t)
  case Nil
  then show ?thesis
    by (cases "rmatch x None [] []")
       (auto simp add: re_test_def re_exec_def re_exec_from.simps[of _ _ _ "[]"] rmatch_basic
             split: prod.splits)
next
  case (Cons a u)
  have "re_exec_from (Seq Bol x) (Suc 0) (Some a) u = None"
    by (rule re_exec_from_Bol) simp
  with Cons show ?thesis
    by (cases "rmatch x None (a # u) []")
       (auto simp add: re_test_def re_exec_def re_exec_from.simps[of _ _ _ "a # u"] rmatch_basic
             split: prod.splits)
qed

lemma nonempty_Seq:
  "(rmatch (Seq a b) p r c \<noteq> []) =
     (\<exists>x \<in> set (rmatch a p r c). rmatch b (fst x) (fst (snd x)) (snd (snd x)) \<noteq> [])"
proof -
  have "(rmatch (Seq a b) p r c \<noteq> []) =
        (\<exists>x \<in> set (rmatch a p r c). (case x of (p', r', c') \<Rightarrow> rmatch b p' r' c') \<noteq> [])"
    by (simp add: concat_eq_Nil_conv rmatch_basic)
  also have "\<dots> = (\<exists>x \<in> set (rmatch a p r c). rmatch b (fst x) (fst (snd x)) (snd (snd x)) \<noteq> [])"
    by (simp add: case_prod_beta)
  finally show ?thesis .
qed

lemma set_rmatch_Grp:
  "set (rmatch (Grp n a) p r c) =
     (\<lambda>x. (fst x, fst (snd x), (n, take (length r - length (fst (snd x))) r) # snd (snd x))) `
       set (rmatch a p r c)"
  by (simp add: case_prod_beta rmatch_basic)

lemma set_rmatch_Alt:
  "set (rmatch (Alt a b) p r c) = set (rmatch a p r c) \<union> set (rmatch b p r c)"
  by (simp add: rmatch_basic)

lemma nonempty_Eps: "rmatch Eps p r c \<noteq> []"
  by (simp add: rmatch_basic)

lemma nonempty_Star: "rmatch (Star a) p r c \<noteq> []"
  by (subst rmatch.simps) simp

lemma nonempty_ws1:
  "(rmatch ws1 p r c \<noteq> []) = (case r of [] \<Rightarrow> False | x # _ \<Rightarrow> isSpace x)"
  by (cases r) (simp_all add: ws1_def rplus_def rmatch_basic nonempty_Star)

lemma nonempty_ws1_Eps:
  "(rmatch (Seq ws1 Eps) p r c \<noteq> []) = (case r of [] \<Rightarrow> False | x # _ \<Rightarrow> isSpace x)"
proof -
  have "(rmatch (Seq ws1 Eps) p r c \<noteq> []) = (rmatch ws1 p r c \<noteq> [])"
    by (cases "rmatch ws1 p r c") (auto simp add: nonempty_Seq nonempty_Eps)
  then show ?thesis by (simp add: nonempty_ws1)
qed

lemma keyword_regex:
  "(rmatch (Seq (rlit kw) (Seq ws1 Eps)) p r c \<noteq> []) = keyword_line kw r"
  by (simp add: nonempty_Seq[of "rlit kw"] rmatch_rlit nonempty_ws1_Eps keyword_line_def)

lemma re_test_keywords:
  "re_test (Seq Bol (Seq (Grp n alts) (Seq ws1 Eps))) t =
     (\<exists>x \<in> set (rmatch alts None t []). case fst (snd x) of [] \<Rightarrow> False | y # _ \<Rightarrow> isSpace y)"
  by (simp add: re_test_Bol nonempty_Seq[of "Grp n alts"] set_rmatch_Grp nonempty_ws1_Eps)

lemma ex_rlit:
  "(\<exists>x \<in> set (rmatch (rlit kw) p r c). case fst (snd x) of [] \<Rightarrow> False | y # _ \<Rightarrow> isSpace y) =
     keyword_line kw r"
  by (simp add: rmatch_rlit keyword_line_def)

lemma re_test_condition_keyword:
  "re_test re_condition_keyword t =
     (keyword_line ''When'' t \<or> keyword_line ''Given'' t \<or> keyword_line ''And'' t \<or> keyword_line ''Or'' t)"
  unfolding re_condition_keyword_def rseq_def ralt_def
  by (simp add: re_test_keywords set_rmatch_Alt bex_Un ex_rlit)

lemma re_test_outcome_keyword:
  "re_test re_outcome_keyword t = (keyword_line ''Then'' t \<or> keyword_line ''And'' t)"
  unfolding re_outcome_keyword_def rseq_def ralt_def
  by (simp add: re_test_keywords set_rmatch_Alt bex_Un ex_rlit)

lemma re_test_when_given_and:
  "re_test re_when_given_and t =
     (keyword_line ''When'' t \<or> keyword_line ''Given'' t \<or> keyword_line ''And'' t)"
  unfolding re_when_given_and_def rseq_def ralt_def
  by (simp add: re_test_keywords set_rmatch_Alt bex_Un ex_rlit)

lemma keyword_line_first:
  "keyword_line (a # kw) t \<Longrightarrow> \<exists>u. t = a # u"
  by (cases t) (auto simp: keyword_line_def)


lemma scenario_line_kind_Outcome:
  "(scenario_line_kind t = OutcomeLine) = keyword_line ''Then'' t"
proof
  assume "scenario_line_kind t = OutcomeLine"
  then show "keyword_line ''Then'' t"
    by (auto simp add: scenario_line_kind_def re_test_condition_keyword re_test_outcome_keyword
        split: if_splits)
next
  assume k: "keyword_line ''Then'' t"
  then obtain u where t: "t = CHR ''T'' # u"
    using keyword_line_first by blast
  have "\<not> keyword_line ''When'' t" "\<not> keyword_line ''Given'' t" "\<not> keyword_line ''And'' t"
       "\<not> keyword_line ''Or'' t" "\<not> startsWith t ''- ''"
    using t by (auto dest: keyword_line_first simp: startsWith_def)
  with k show "scenario_line_kind t = OutcomeLine"
    by (simp add: scenario_line_kind_def re_test_condition_keyword re_test_outcome_keyword)
qed


section \<open>The findings of the validator, line by line\<close>

lemma regular_at_Nil [simp]: "regular_at n []"
  by (simp add: regular_at_def)

lemma regular_at_append [simp]: "regular_at n (xs @ ys) = (regular_at n xs \<and> regular_at n ys)"
  by (simp add: regular_at_def)

lemma regular_at_concat_map:
  "(\<And>x. regular_at n (f x)) \<Longrightarrow> regular_at n (concat (map f xs))"
  by (induction xs) simp_all

lemma validateCondition_regular: "regular_at n (validateCondition condition n col lines idx)"
  unfolding validateCondition_def Let_def
  by (auto simp: regular_at_def list_all_iff)

lemma amount_check_regular:
  "msg \<noteq> ''Scenario missing outcome statements (Then...)'' \<Longrightarrow>
   regular_at n (amount_check msg outcome n col lines idx)"
  unfolding amount_check_def Let_def
  by (auto simp: regular_at_def split: option.splits)

lemma validateOutcome_regular: "regular_at n (validateOutcome outcome n col lines idx schedules)"
  unfolding validateOutcome_def Let_def
  by (auto simp: amount_check_regular split: option.splits) (simp_all add: regular_at_def)


lemma push_simps [simp]:
  "errors (push ds st) = errors st @ ds"
  "currentBlock (push ds st) = currentBlock st"
  "blockStartLine (push ds st) = blockStartLine st"
  "hasOutcomes (push ds st) = hasOutcomes st"
  "hasConditions (push ds st) = hasConditions st"
  "expectingListItems (push ds st) = expectingListItems st"
  by (simp_all add: push_def)

lemma scenario_header_errors:
  "\<exists>ds. errors (scenario_header lines idx ln trimmed st) =
          errors st @
          (if currentBlock st = Some Scenario \<and> \<not> hasOutcomes st
           then [missing_outcome lines (blockStartLine st)] else []) @ ds \<and>
        regular_at (int idx + 1) ds"
  unfolding scenario_header_def Let_def
  by (auto simp: regular_at_def)

lemma scenario_header_state:
  "currentBlock (scenario_header lines idx ln trimmed st) = Some Scenario"
  "blockStartLine (scenario_header lines idx ln trimmed st) = int idx + 1"
  "hasOutcomes (scenario_header lines idx ln trimmed st) = False"
  unfolding scenario_header_def Let_def by auto

lemma definition_header_errors:
  "\<exists>ds. errors (definition_header lines idx ln trimmed st) = errors st @ ds \<and>
        regular_at (int idx + 1) ds"
  unfolding definition_header_def Let_def
  by (auto simp: regular_at_def)

lemma definition_header_state:
  "currentBlock (definition_header lines idx ln trimmed st) = Some Definition"
  "blockStartLine (definition_header lines idx ln trimmed st) = int idx + 1"
  "hasOutcomes (definition_header lines idx ln trimmed st) = hasOutcomes st"
  unfolding definition_header_def Let_def by auto

lemma schedule_header_errors:
  "\<exists>ds. errors (schedule_header lines idx ln trimmed st) = errors st @ ds \<and>
        regular_at (int idx + 1) ds"
  unfolding schedule_header_def Let_def
  by (auto simp: regular_at_def)

lemma schedule_header_state:
  "currentBlock (schedule_header lines idx ln trimmed st) = Some Schedule"
  "blockStartLine (schedule_header lines idx ln trimmed st) = int idx + 1"
  "hasOutcomes (schedule_header lines idx ln trimmed st) = hasOutcomes st"
  unfolding schedule_header_def Let_def by auto

lemma condition_line_errors:
  "\<exists>ds. errors (condition_line lines idx ln trimmed st) = errors st @ ds \<and>
        regular_at (int idx + 1) ds"
  unfolding condition_line_def Let_def
  using validateCondition_regular
  by (auto simp: regular_at_def)

lemma condition_line_state:
  "currentBlock (condition_line lines idx ln trimmed st) = currentBlock st"
  "blockStartLine (condition_line lines idx ln trimmed st) = blockStartLine st"
  "hasOutcomes (condition_line lines idx ln trimmed st) = hasOutcomes st"
  unfolding condition_line_def Let_def by auto

lemma list_item_line_errors:
  "\<exists>ds. errors (list_item_line lines idx ln trimmed st) = errors st @ ds \<and>
        regular_at (int idx + 1) ds"
  unfolding list_item_line_def Let_def
  using validateCondition_regular
  by (auto simp: regular_at_def)

lemma list_item_line_state:
  "currentBlock (list_item_line lines idx ln trimmed st) = currentBlock st"
  "blockStartLine (list_item_line lines idx ln trimmed st) = blockStartLine st"
  "hasOutcomes (list_item_line lines idx ln trimmed st) = hasOutcomes st"
  unfolding list_item_line_def Let_def by auto

lemma outcome_line_errors:
  "\<exists>ds. errors (outcome_line lines schedules idx ln trimmed st) = errors st @ ds \<and>
        regular_at (int idx + 1) ds"
  unfolding outcome_line_def Let_def
  using validateOutcome_regular
  by (auto simp: regular_at_def)

lemma outcome_line_state:
  "currentBlock (outcome_line lines schedules idx ln trimmed st) = currentBlock st"
  "blockStartLine (outcome_line lines schedules idx ln trimmed st) = blockStartLine st"
  "hasOutcomes (outcome_line lines schedules idx ln trimmed st) = True"
  unfolding outcome_line_def Let_def by auto

lemma invalid_line_errors:
  "\<exists>ds. errors (invalid_line lines idx trimmed st) = errors st @ ds \<and>
        regular_at (int idx + 1) ds"
  unfolding invalid_line_def
  by (auto simp: regular_at_def)

lemma invalid_line_state:
  "currentBlock (invalid_line lines idx trimmed st) = currentBlock st"
  "blockStartLine (invalid_line lines idx trimmed st) = blockStartLine st"
  "hasOutcomes (invalid_line lines idx trimmed st) = hasOutcomes st"
  unfolding invalid_line_def by auto

lemma scenario_line_errors:
  "\<exists>ds. errors (scenario_line lines schedules idx ln trimmed st) = errors st @ ds \<and>
        regular_at (int idx + 1) ds"
  unfolding scenario_line_def
  using condition_line_errors list_item_line_errors outcome_line_errors invalid_line_errors
  by (cases "scenario_line_kind trimmed") auto

lemma scenario_line_state:
  "currentBlock (scenario_line lines schedules idx ln trimmed st) = currentBlock st"
  "blockStartLine (scenario_line lines schedules idx ln trimmed st) = blockStartLine st"
  "hasOutcomes (scenario_line lines schedules idx ln trimmed st) =
     (hasOutcomes st \<or> scenario_line_kind trimmed = OutcomeLine)"
  unfolding scenario_line_def
  by (cases "scenario_line_kind trimmed";
      simp add: condition_line_state list_item_line_state outcome_line_state invalid_line_state)+

lemma schedule_line_errors:
  "\<exists>ds. errors (schedule_line lines idx trimmed st) = errors st @ ds \<and>
        regular_at (int idx + 1) ds"
  unfolding schedule_line_def Let_def
  by (auto simp: regular_at_def split: option.splits)

lemma schedule_line_state:
  "currentBlock (schedule_line lines idx trimmed st) = currentBlock st"
  "blockStartLine (schedule_line lines idx trimmed st) = blockStartLine st"
  "hasOutcomes (schedule_line lines idx trimmed st) = hasOutcomes st"
  unfolding schedule_line_def Let_def by (auto split: option.splits)

lemma validate_line_errors:
  "\<exists>ds. errors (validate_line lines schedules idx ln st) =
          errors st @ tab_check lines idx ln @ closing lines ln st @ ds \<and>
        regular_at (int idx + 1) ds"
proof -
  let ?st1 = "push (tab_check lines idx ln) st"
  consider (empty) "trim ln = []"
    | (scn) "trim ln \<noteq> []" "startsWith (trim ln) ''Scenario:''"
    | (dfn) "trim ln \<noteq> []" "\<not> startsWith (trim ln) ''Scenario:''" "startsWith (trim ln) ''Definition:''"
    | (sch) "trim ln \<noteq> []" "\<not> startsWith (trim ln) ''Scenario:''" "\<not> startsWith (trim ln) ''Definition:''"
            "startsWith (trim ln) ''Schedule:''"
    | (inscn) "trim ln \<noteq> []" "\<not> startsWith (trim ln) ''Scenario:''" "\<not> startsWith (trim ln) ''Definition:''"
            "\<not> startsWith (trim ln) ''Schedule:''" "currentBlock st = Some Scenario"
    | (insch) "trim ln \<noteq> []" "\<not> startsWith (trim ln) ''Scenario:''" "\<not> startsWith (trim ln) ''Definition:''"
            "\<not> startsWith (trim ln) ''Schedule:''" "currentBlock st \<noteq> Some Scenario" "currentBlock st = Some Schedule"
    | (other) "trim ln \<noteq> []" "\<not> startsWith (trim ln) ''Scenario:''" "\<not> startsWith (trim ln) ''Definition:''"
            "\<not> startsWith (trim ln) ''Schedule:''" "currentBlock st \<noteq> Some Scenario" "currentBlock st \<noteq> Some Schedule"
    by blast
  then show ?thesis
  proof cases
    case empty
    then show ?thesis
      by (simp add: validate_line_def Let_def closing_def is_scenario_header_def startsWith_def)
  next
    case scn
    from scenario_header_errors[of lines idx ln "trim ln" ?st1]
    obtain ds where "errors (scenario_header lines idx ln (trim ln) ?st1) =
          errors ?st1 @
          (if currentBlock ?st1 = Some Scenario \<and> \<not> hasOutcomes ?st1
           then [missing_outcome lines (blockStartLine ?st1)] else []) @ ds" "regular_at (int idx + 1) ds"
      by blast
    with scn show ?thesis
      by (simp add: validate_line_def Let_def closing_def is_scenario_header_def)
  next
    case dfn
    from definition_header_errors[of lines idx ln "trim ln" ?st1] dfn show ?thesis
      by (simp add: validate_line_def Let_def closing_def is_scenario_header_def)
  next
    case sch
    from schedule_header_errors[of lines idx ln "trim ln" ?st1] sch show ?thesis
      by (simp add: validate_line_def Let_def closing_def is_scenario_header_def)
  next
    case inscn
    from scenario_line_errors[of lines schedules idx ln "trim ln" ?st1] inscn show ?thesis
      by (simp add: validate_line_def Let_def closing_def is_scenario_header_def)
  next
    case insch
    from schedule_line_errors[of lines idx "trim ln" ?st1] insch show ?thesis
      by (simp add: validate_line_def Let_def closing_def is_scenario_header_def)
  next
    case other
    then show ?thesis
      by (simp add: validate_line_def Let_def closing_def is_scenario_header_def)
  qed
qed

lemma validate_line_currentBlock:
  "currentBlock (validate_line lines schedules idx ln st) =
     (if is_scenario_header ln then Some Scenario
      else if startsWith (trim ln) ''Definition:'' then Some Definition
      else if startsWith (trim ln) ''Schedule:'' then Some Schedule
      else currentBlock st)"
  by (simp add: validate_line_def Let_def is_scenario_header_def startsWith_def
      scenario_header_state definition_header_state schedule_header_state
      scenario_line_state schedule_line_state)




section \<open>The order of the diagnostics\<close>



lemma filter_regular_closing [simp]: "filter regular (closing lines ln st) = []"
  by (simp add: closing_def regular_def missing_outcome_def)







section \<open>Scenarios without outcome\<close>


lemma missing_at_append [simp]: "missing_at n (xs @ ys) = missing_at n xs @ missing_at n ys"
  by (simp add: missing_at_def)

lemma missing_at_Nil [simp]: "missing_at n [] = []"
  by (simp add: missing_at_def)




lemma validate_lines_append:
  "validate_lines lines schedules idx (xs @ ys) st =
     validate_lines lines schedules (idx + length xs) ys (validate_lines lines schedules idx xs st)"
  by (induction xs arbitrary: idx st) simp_all









section \<open>And lines in the validator\<close>




section \<open>References to schedules\<close>

lemma validate_lines_currentBlock:
  "currentBlock (validate_lines lines schedules idx ls st) = fold header_step ls (currentBlock st)"
  by (induction ls arbitrary: idx st)
     (simp_all add: validate_line_currentBlock header_step_def is_scenario_header_def)

lemma validate_line_errors_mono:
  "set (errors st) \<subseteq> set (errors (validate_line lines schedules idx ln st))"
  using validate_line_errors[of lines schedules idx ln st] by auto

lemma validate_lines_errors_mono:
  "set (errors st) \<subseteq> set (errors (validate_lines lines schedules idx ls st))"
proof (induction ls arbitrary: idx st)
  case Nil
  then show ?case by simp
next
  case (Cons ln ls)
  show ?case
    using validate_line_errors_mono[of st lines schedules idx ln]
      Cons.IH[of "validate_line lines schedules idx ln st" "Suc idx"]
    by auto
qed

lemma final_check_mono: "set (errors st) \<subseteq> set (final_check lines st)"
  by (auto simp add: final_check_def)

lemma collect_line_schedules:
  "x \<in> set (snd (collect_line ln ds)) \<Longrightarrow>
   x \<in> set (snd ds) \<or> (startsWith (trim ln) ''Schedule:'' \<and> trim (substring (trim ln) 9) = x)"
  by (auto simp: collect_line_def Let_def set_add_def split: if_splits)

lemma collect_names_schedules:
  "x \<in> set (snd (fold collect_line ls ds)) \<Longrightarrow>
   x \<in> set (snd ds) \<or>
   (\<exists>ln \<in> set ls. startsWith (trim ln) ''Schedule:'' \<and> trim (substring (trim ln) 9) = x)"
proof (induction ls arbitrary: ds)
  case Nil
  then show ?case by simp
next
  case (Cons ln ls)
  from Cons.IH[OF Cons.prems[simplified]] show ?case
    using collect_line_schedules[of x ln ds] by auto
qed

lemma outcome_line_schedule_error:
  assumes "\<not> list_ex (\<lambda>pattern. re_test pattern outcome) eligibilityPatterns"
    and "\<not> re_test re_payment_is outcome" and "\<not> re_test re_base_rate outcome"
    and "re_exec re_schedule_ref outcome = Some m"
    and "trim (grp_str m 1) \<notin> set schedules"
  shows "\<exists>d \<in> set (validateOutcome outcome n col lines idx schedules).
           line d = n \<and> severity d = SevError \<and>
           message d = ''Schedule '' @ [CHR 0x27] @ trim (grp_str m 1) @ [CHR 0x27] @ '' not defined''"
  using assms by (simp add: validateOutcome_def Let_def)

text \<open>
  C6 (amended): for every document that has, inside a scenario, a line beginning with
  \<open>Then\<close> whose outcome text matches \<open>rate is determined by N\<close> and none of the patterns
  tried before it (eligibility, payment amount, base rate), where no \<open>Schedule:\<close> header of
  the document declares \<open>N\<close>, validate returns an error diagnostic at that line with the
  message \<open>Schedule 'N' not defined\<close>.
\<close>

theorem C6_unknown_schedule:
  assumes lines: "lines = split_char (CHR 0x0A) text"
    and i: "i < length lines"
    and blk: "current_block (take i lines) = Some Scenario"
    and thn: "then_line (lines ! i)"
    and outcome: "outcome = re_replace re_outcome_keyword [] (trim (lines ! i))"
    and prio: "\<not> list_ex (\<lambda>pattern. re_test pattern outcome) eligibilityPatterns \<and>
               \<not> re_test re_payment_is outcome \<and> \<not> re_test re_base_rate outcome"
    and ref: "re_exec re_schedule_ref outcome = Some m \<and> name = trim (grp_str m 1)"
    and undeclared: "\<forall>ln \<in> set lines. startsWith (trim ln) ''Schedule:'' \<longrightarrow>
                       trim (substring (trim ln) 9) \<noteq> name"
  shows "\<exists>d \<in> set (validateCourgette text).
           line d = int i + 1 \<and> severity d = SevError \<and>
           message d = ''Schedule '' @ [CHR 0x27] @ name @ [CHR 0x27] @ '' not defined''"
proof -
  let ?sch = "snd (collect_names lines)"
  let ?ln = "lines ! i"
  let ?st1 = "validate_lines lines ?sch 0 (take i lines) init_vstate"
  let ?st1' = "push (tab_check lines i ?ln) ?st1"
  let ?st2 = "validate_line lines ?sch i ?ln ?st1"
  have dec: "lines = take i lines @ ?ln # drop (Suc i) lines"
    using i by (simp add: id_take_nth_drop)
  have len: "length (take i lines) = i" using i by simp
  have "validate_lines lines ?sch 0 lines init_vstate =
        validate_lines lines ?sch 0 (take i lines @ ?ln # drop (Suc i) lines) init_vstate"
    using dec by simp
  also have "\<dots> = validate_lines lines ?sch (Suc i) (drop (Suc i) lines) ?st2"
    using i by (simp add: validate_lines_append min_absorb2)
  finally have all: "validate_lines lines ?sch 0 lines init_vstate =
        validate_lines lines ?sch (Suc i) (drop (Suc i) lines) ?st2" .
  have nosch: "name \<notin> set ?sch"
  proof
    assume "name \<in> set ?sch"
    then have "name \<in> set (snd (fold collect_line lines ([], [])))"
      by (simp add: collect_names_def)
    from collect_names_schedules[OF this] undeclared show False by auto
  qed
  have cb: "currentBlock ?st1 = Some Scenario"
    using blk by (simp add: validate_lines_currentBlock current_block_def init_vstate_def)
  have kind: "scenario_line_kind (trim ?ln) = OutcomeLine"
    using thn by (simp add: then_line_def scenario_line_kind_Outcome)
  have "keyword_line ''Then'' (trim ?ln)"
    using thn by (simp add: then_line_def)
  then obtain u where t: "trim ?ln = CHR ''T'' # u"
    using keyword_line_first by blast
  have step: "?st2 = outcome_line lines ?sch i ?ln (trim ?ln) ?st1'"
    using t cb kind by (simp add: validate_line_def Let_def startsWith_def scenario_line_def)
  from outcome_line_schedule_error[of outcome m ?sch "int i + 1" "indexOf (trim ?ln) outcome + 1" lines i]
    prio ref nosch
  obtain d where d: "d \<in> set (validateOutcome outcome (int i + 1) (indexOf (trim ?ln) outcome + 1)
                          lines i ?sch)"
    "line d = int i + 1" "severity d = SevError"
    "message d = ''Schedule '' @ [CHR 0x27] @ name @ [CHR 0x27] @ '' not defined''"
    by auto
  have "d \<in> set (errors ?st2)"
    using d(1) by (simp add: step outcome_line_def Let_def outcome)
  then have "d \<in> set (errors (validate_lines lines ?sch 0 lines init_vstate))"
    using validate_lines_errors_mono[of ?st2 lines ?sch "Suc i" "drop (Suc i) lines"] all by auto
  then have "d \<in> set (validateCourgette text)"
    using final_check_mono by (auto simp add: validateCourgette_def Let_def lines)
  with d show ?thesis by blast
qed


text \<open>C6, witness: \<open>Then rate is determined by Missing Schedule\<close> on the third line.\<close>

theorem C6_unknown_schedule_witness:
  "\<exists>d \<in> set (validateCourgette
        ''Scenario: S\<newline>When a > 1\<newline>Then rate is determined by Missing Schedule'').
     line d = 3 \<and> severity d = SevError \<and>
     message d = ''Schedule '' @ [CHR 0x27] @ ''Missing Schedule'' @ [CHR 0x27] @ '' not defined''"
proof -
  let ?text = "''Scenario: S\<newline>When a > 1\<newline>Then rate is determined by Missing Schedule''"
  let ?lines = "[''Scenario: S'', ''When a > 1'', ''Then rate is determined by Missing Schedule'']"
  let ?outcome = "''rate is determined by Missing Schedule''"
  let ?m = "\<lparr>m_index = 0, m_text = ''rate is determined by Missing Schedule'',
             m_caps = [(1, ''Missing Schedule'')]\<rparr>"
  have l: "?lines = split_char (CHR 0x0A) ?text" by code_simp
  have i: "2 < length ?lines" by simp
  have b: "current_block (take 2 ?lines) = Some Scenario" by code_simp
  have t: "then_line (?lines ! 2)" by code_simp
  have o: "?outcome = re_replace re_outcome_keyword [] (trim (?lines ! 2))" by code_simp
  have p: "\<not> list_ex (\<lambda>pattern. re_test pattern ?outcome) eligibilityPatterns \<and>
           \<not> re_test re_payment_is ?outcome \<and> \<not> re_test re_base_rate ?outcome" by code_simp
  have r: "re_exec re_schedule_ref ?outcome = Some ?m \<and> ''Missing Schedule'' = trim (grp_str ?m 1)"
    by code_simp
  have u: "\<forall>ln \<in> set ?lines. startsWith (trim ln) ''Schedule:'' \<longrightarrow>
             trim (substring (trim ln) 9) \<noteq> ''Missing Schedule''" by code_simp
  from C6_unknown_schedule[OF l i b t o p r u] show ?thesis by simp
qed

text \<open>
  C6 (as stated, refuted): the patterns are tried in a fixed order and the eligibility
  patterns come first, so an undeclared schedule whose name reads as an eligibility phrase
  is not reported.
\<close>

theorem C6_priority_hides_schedule:
  "validateCourgette
     ''Scenario: S\<newline>When a > 1\<newline>Then rate is determined by who is eligible'' = []"
  by code_simp


section \<open>Or before any condition\<close>

text \<open>
  C4 (the code departs from the claim): for the document \<open>Scenario: A / Or age > 5 /
  Then x is eligible\<close>, whose first condition line begins with \<open>Or\<close>, validate returns no
  diagnostic at all: \<open>hasConditions\<close> is set before the keyword is checked.
\<close>

theorem C4_or_first_no_diagnostic:
  "validateCourgette ''Scenario: A\<newline>Or age > 5\<newline>Then x is eligible'' = []"
  by code_simp


section \<open>The range of between\<close>

text \<open>
  C1 (the code departs from the claim): for the scenario \<open>Scenario: S / When age between 16
  and 24 / Then x is eligible\<close> the eligibility formula generated by the second variant
  returns \<open>(age > = 16) and (age < = 24)\<close>, the operators \<open>>=\<close> and \<open><=\<close> being split by the
  later replacement of \<open><\<close> and \<open>>\<close>; the first variant returns \<open>(age >= 16) and ( <= 24)\<close>, the
  placeholder of the second bound being removed. Neither text is an expression of the
  target language, so the formula has no value at any age.
\<close>

theorem C1_between_formula_text:
  "compileToOpenFisca_v2 ''03/11/2026''
     ''Scenario: S\<newline>When age between 16 and 24\<newline>Then x is eligible'' =
   header ''03/11/2026'' @
   ''# Variable definitions\<newline>'' @
   ''\<newline>class age(Variable):\<newline>'' @
   ''    value_type = int\<newline>'' @
   ''    entity = Person\<newline>'' @
   ''    definition_period = DAY\<newline>'' @
   ''    label = \"age\"\<newline>'' @
   ''\<newline>'' @
   eligibility_head ''S'' @
   ''        age = person('' @ [CHR 0x27] @ ''age'' @ [CHR 0x27] @ '', period)\<newline>'' @
   ''\<newline>        return (\<newline>'' @
   ''            (age > = 16) and (age < = 24)\<newline>'' @
   ''        )\<newline>'' \<and>
   compileToOpenFisca_v1 ''03/11/2026''
     ''Scenario: S\<newline>When age between 16 and 24\<newline>Then x is eligible'' =
   ''# Variable definitions\<newline>'' @
   ''\<newline>class age(Variable):\<newline>'' @
   ''    value_type = int\<newline>'' @
   ''    entity = Person\<newline>'' @
   ''    definition_period = DAY\<newline>'' @
   ''    label = \"age\"\<newline>'' @
   ''\<newline>\<newline>'' @
   header ''03/11/2026'' @
   eligibility_head ''S'' @
   ''        age = person('' @ [CHR 0x27] @ ''age'' @ [CHR 0x27] @ '', period)\<newline>'' @
   ''        _ = person('' @ [CHR 0x27] @ ''_'' @ [CHR 0x27] @ '', period)\<newline>'' @
   ''\<newline>        return (\<newline>'' @
   ''            (age >= 16) and ( <= 24)\<newline>'' @
   ''        )\<newline>''"
  by code_simp


section \<open>The two variants of the compiler\<close>

lemma add_outcome_outcomes:
  "c_outcomes (add_outcome t st) = c_outcomes st @ [parseOutcome (re_replace re_outcome_keyword [] t)]"
  by (simp add: add_outcome_def Let_def)

lemma add_condition_outcomes: "c_outcomes (add_condition pc c st) = c_outcomes st"
  by (simp add: add_condition_def)

lemma add_list_item_outcomes: "c_outcomes (add_list_item pc t st) = c_outcomes st"
  by (simp add: add_list_item_def Let_def)

lemma outcome_keyword_not_condition:
  assumes "keyword_line ''Then'' t \<or> (keyword_line ''And'' t \<and> \<not> c_inConditions st)"
  shows "\<not> (re_test re_when_given_and t \<and> c_inConditions st)"
    and "\<not> (startsWith t ''Or'' \<and> c_inConditions st)"
    and "re_test re_outcome_keyword t"
    and "\<not> startsWith t ''-''"
proof -
  from assms obtain a u where t: "t = a # u" "a = CHR ''T'' \<or> a = CHR ''A''"
    using keyword_line_first by blast
  from assms t show "\<not> (re_test re_when_given_and t \<and> c_inConditions st)"
    by (auto simp: re_test_when_given_and dest: keyword_line_first)
  from assms t show "\<not> (startsWith t ''Or'' \<and> c_inConditions st)"
    by (auto simp: startsWith_def)
  from assms show "re_test re_outcome_keyword t"
    by (auto simp: re_test_outcome_keyword)
  from t show "\<not> startsWith t ''-''"
    by (auto simp: startsWith_def)
qed

text \<open>
  C9 (amended): the two variants of the compiler are not equivalent. For the scenario with
  the outcomes \<open>Then payment is $1000 per fortnight\<close> and \<open>And payment reduces by 50 cents
  per dollar over $200\<close> the first variant records the payment only, the second the payment
  and the reduction. The first variant records an outcome from a line only when the line
  begins with \<open>Then\<close> or \<open>And\<close> and contains \<open>is\<close>. From a \<open>Then\<close> line, and from an \<open>And\<close>
  line that is not read as a condition (the scenario has left its conditions), the second
  variant always records the outcome, the first exactly when the line contains \<open>is\<close>.
\<close>

theorem C9_variants_differ:
  "c_outcomes (fold compile_line_v1
      [''Scenario: S'', ''When income < 5000'', ''Then payment is $1000 per fortnight'',
       ''And payment reduces by 50 cents per dollar over $200''] (init_cstate [])) =
     [Payment (Dec 1000 0) ''fortnight''] \<and>
   c_outcomes (fold compile_line_v2
      [''Scenario: S'', ''When income < 5000'', ''Then payment is $1000 per fortnight'',
       ''And payment reduces by 50 cents per dollar over $200''] (init_cstate [])) =
     [Payment (Dec 1000 0) ''fortnight'', Reduction (Dec 50 0) (Dec 200 0)] \<and>
   (c_outcomes (scenario_part_v1 t st) \<noteq> c_outcomes st \<longrightarrow>
      (keyword_line ''Then'' t \<or> keyword_line ''And'' t) \<and> str_includes t ''is'') \<and>
   (keyword_line ''Then'' t \<or> (keyword_line ''And'' t \<and> \<not> c_inConditions st) \<longrightarrow>
      c_outcomes (scenario_part_v1 t st) =
        (if str_includes t ''is''
         then c_outcomes st @ [parseOutcome (re_replace re_outcome_keyword [] t)]
         else c_outcomes st) \<and>
      c_outcomes (scenario_part_v2 t st) =
        c_outcomes st @ [parseOutcome (re_replace re_outcome_keyword [] t)])"
proof (intro conjI impI)
  show "c_outcomes (fold compile_line_v1
      [''Scenario: S'', ''When income < 5000'', ''Then payment is $1000 per fortnight'',
       ''And payment reduces by 50 cents per dollar over $200''] (init_cstate [])) =
     [Payment (Dec 1000 0) ''fortnight'']"
    by code_simp
  show "c_outcomes (fold compile_line_v2
      [''Scenario: S'', ''When income < 5000'', ''Then payment is $1000 per fortnight'',
       ''And payment reduces by 50 cents per dollar over $200''] (init_cstate [])) =
     [Payment (Dec 1000 0) ''fortnight'', Reduction (Dec 50 0) (Dec 200 0)]"
    by code_simp
next
  assume "c_outcomes (scenario_part_v1 t st) \<noteq> c_outcomes st"
  then have "re_test re_outcome_keyword t \<and> str_includes t ''is''"
    by (auto simp: scenario_part_v1_def add_condition_outcomes add_list_item_outcomes
        split: if_splits)
  then show "keyword_line ''Then'' t \<or> keyword_line ''And'' t" and "str_includes t ''is''"
    by (simp_all add: re_test_outcome_keyword)
next
  assume a: "keyword_line ''Then'' t \<or> (keyword_line ''And'' t \<and> \<not> c_inConditions st)"
  note f = outcome_keyword_not_condition[OF a]
  from f show "c_outcomes (scenario_part_v1 t st) =
        (if str_includes t ''is''
         then c_outcomes st @ [parseOutcome (re_replace re_outcome_keyword [] t)]
         else c_outcomes st)"
    by (auto simp add: scenario_part_v1_def add_outcome_outcomes)
  from f show "c_outcomes (scenario_part_v2 t st) =
        c_outcomes st @ [parseOutcome (re_replace re_outcome_keyword [] t)]"
    by (auto simp add: scenario_part_v2_def add_outcome_outcomes)
qed

text \<open>C9, witness: the line of the claim, \<open>Then payment reduces by 50 cents per dollar over
  $200\<close>, and a line that contains \<open>is\<close>.\<close>

theorem C9_variants_differ_witness:
  "c_outcomes (scenario_part_v1 ''Then payment reduces by 50 cents per dollar over $200''
     (init_cstate [])) = [] \<and>
   c_outcomes (scenario_part_v2 ''Then payment reduces by 50 cents per dollar over $200''
     (init_cstate [])) = [Reduction (Dec 50 0) (Dec 200 0)] \<and>
   c_outcomes (scenario_part_v1 ''Then payment is $1000 per fortnight'' (init_cstate [])) =
     [Payment (Dec 1000 0) ''fortnight''] \<and>
   keyword_line ''Then'' ''Then payment is $1000 per fortnight'' \<and>
   str_includes ''Then payment is $1000 per fortnight'' ''is''"
proof -
  let ?t = "''Then payment reduces by 50 cents per dollar over $200''"
  let ?u = "''Then payment is $1000 per fortnight''"
  have k: "keyword_line ''Then'' ?t" "keyword_line ''Then'' ?u" by code_simp+
  have n: "\<not> str_includes ?t ''is''" "str_includes ?u ''is''" by code_simp+
  have p: "parseOutcome (re_replace re_outcome_keyword [] ?t) = Reduction (Dec 50 0) (Dec 200 0)"
          "parseOutcome (re_replace re_outcome_keyword [] ?u) = Payment (Dec 1000 0) ''fortnight''"
    by code_simp+
  have e: "c_outcomes (init_cstate []) = []" by (simp add: init_cstate_def)
  have d: "c_outcomes (scenario_part_v1 ?u (init_cstate [])) \<noteq> c_outcomes (init_cstate [])"
    by code_simp
  from C9_variants_differ[of ?t "init_cstate []"] C9_variants_differ[of ?u "init_cstate []"]
    k n p e d
  show ?thesis by simp
qed

text \<open>
  C9 (as stated, refuted): the second variant records an outcome from every \<open>And\<close> line of
  a scenario. An \<open>And\<close> line among the conditions is recorded as a condition.
\<close>

theorem C9_and_condition_v2:
  "c_outcomes (fold compile_line_v2 [''Scenario: S'', ''And income < 5000''] (init_cstate [])) = [] \<and>
   c_conditions (fold compile_line_v2 [''Scenario: S'', ''And income < 5000''] (init_cstate [])) =
     [''income < 5000'']"
  by code_simp


section \<open>The day in the generated text\<close>

lemma with_prefix_fields [simp]:
  "c_currentScenario (with_prefix out st) = c_currentScenario st"
  "c_currentSchedule (with_prefix out st) = c_currentSchedule st"
  "c_variables (with_prefix out st) = c_variables st"
  "c_conditions (with_prefix out st) = c_conditions st"
  "c_outcomes (with_prefix out st) = c_outcomes st"
  "c_inConditions (with_prefix out st) = c_inConditions st"
  "c_output (with_prefix out st) = out @ c_output st"
  by (simp_all add: with_prefix_def)











end
